theory Spec2Isabelle
  imports Complex_Main "HOL-Library.Char_ord" "HOL-Library.List_Lexorder" "HOL-Library.AList"
    "HOL-Library.Sublist"
begin

section \<open>Strings, characters and the Python builtins the pipeline uses\<close>

text \<open>
  Every cell text reaches the functions below through \<open>clean_text\<close>, which drops
  all non-ASCII characters, so a string is a list of 8-bit characters and the character
  classes of the regular expressions (\<^verbatim>\<open>\d\<close>, \<^verbatim>\<open>\s\<close>, \<^verbatim>\<open>\w\<close>) and the case
  conversions are Python's on ASCII; a character above 127 is in no class and has no
  case. Strings are ordered as Python orders them: lexicographically by code point, a
  proper prefix first.
\<close>

datatype error = IndexError | AttributeError | KeyError | ValueError | OverflowError | TypeError

definition newline :: char where
  "newline = CHR 0x0A"

definition dquote :: char where
  "dquote = CHR 0x22"

definition is_digit :: "char \<Rightarrow> bool" where
  "is_digit c = (CHR ''0'' \<le> c \<and> c \<le> CHR ''9'')"

text \<open>Python's \<^verbatim>\<open>\s\<close> and \<^verbatim>\<open>str.strip()\<close> on ASCII: 0x09-0x0D, 0x1C-0x20.\<close>

definition is_space :: "char \<Rightarrow> bool" where
  "is_space c = ((CHR 0x09 \<le> c \<and> c \<le> CHR 0x0D) \<or> (CHR 0x1C \<le> c \<and> c \<le> CHR 0x20))"

definition is_upper :: "char \<Rightarrow> bool" where
  "is_upper c = (CHR ''A'' \<le> c \<and> c \<le> CHR ''Z'')"

definition is_lower :: "char \<Rightarrow> bool" where
  "is_lower c = (CHR ''a'' \<le> c \<and> c \<le> CHR ''z'')"


definition lower_char :: "char \<Rightarrow> char" where
  "lower_char c = (if is_upper c then char_of (of_char c + (32::nat)) else c)"

definition upper_char :: "char \<Rightarrow> char" where
  "upper_char c = (if is_lower c then char_of (of_char c - (32::nat)) else c)"

definition lower :: "string \<Rightarrow> string" where
  "lower s = map lower_char s"

definition starts_with :: "string \<Rightarrow> string \<Rightarrow> bool" where
  "starts_with p s = (take (length p) s = p)"

text \<open>\<^verbatim>\<open>sub in s\<close>: \<open>sub\<close> occurs in \<open>s\<close> as a contiguous substring.\<close>

fun contains :: "string \<Rightarrow> string \<Rightarrow> bool" where
  "contains sub [] = (sub = [])"
| "contains sub (c # cs) = (starts_with sub (c # cs) \<or> contains sub cs)"

text \<open>\<^verbatim>\<open>s.split(sep)\<close> for a one-character separator: never the empty list.\<close>

fun split :: "char \<Rightarrow> string \<Rightarrow> string list" where
  "split sep [] = [[]]"
| "split sep (c # cs) =
     (if c = sep then [] # split sep cs
      else (case split sep cs of [] \<Rightarrow> [[c]] | p # ps \<Rightarrow> (c # p) # ps))"

definition strip :: "string \<Rightarrow> string" where
  "strip s = rev (dropWhile is_space (rev (dropWhile is_space s)))"

text \<open>\<^verbatim>\<open>s.strip(c)\<close> for one character \<open>c\<close>.\<close>

definition strip_char :: "char \<Rightarrow> string \<Rightarrow> string" where
  "strip_char c s = rev (dropWhile (\<lambda>x. x = c) (rev (dropWhile (\<lambda>x. x = c) s)))"

section \<open>Text Normalizer\<close>

subsection \<open>\<open>clean_instance_type\<close>\<close>

text \<open>
  \<^verbatim>\<open>re.sub(r"(\d*xlarge|metal(?:-\d+xl)?|nano|micro|small|medium|large)\d+$", r"\1", s)\<close>

  \<open>digits_to_end\<close> is \<^verbatim>\<open>\d+$\<close>: one or more digits up to the end of the string, or up
  to a newline that ends the string (where \<^verbatim>\<open>$\<close> matches too). The greedy run is the
  only choice: after fewer digits the next character is a digit and \<^verbatim>\<open>$\<close> fails.
\<close>

definition digits_to_end :: "string \<Rightarrow> bool" where
  "digits_to_end t =
     (takeWhile is_digit t \<noteq> [] \<and>
      (dropWhile is_digit t = [] \<or> dropWhile is_digit t = [newline]))"

text \<open>
  The ways group 1 matches at the front of \<open>t\<close>, in the order the matcher tries them,
  each with the text left after the group. In \<^verbatim>\<open>\d*xlarge\<close> the greedy run is again
  the only choice (after fewer digits a digit stands where \<^verbatim>\<open>x\<close> must); in
  \<^verbatim>\<open>metal(?:-\d+xl)?\<close> the optional part is tried before its omission.
\<close>

definition lit :: "string \<Rightarrow> string \<Rightarrow> (string \<times> string) list" where
  "lit w t = (if starts_with w t then [(w, drop (length w) t)] else [])"

definition alt_xlarge :: "string \<Rightarrow> (string \<times> string) list" where
  "alt_xlarge t =
     (if starts_with ''xlarge'' (dropWhile is_digit t)
      then [(takeWhile is_digit t @ ''xlarge'', drop 6 (dropWhile is_digit t))]
      else [])"

definition metal_xl :: "string \<Rightarrow> (string \<times> string) list" where
  "metal_xl r =
     (case r of
        [] \<Rightarrow> []
      | c # r1 \<Rightarrow>
          if c = CHR ''-'' \<and> takeWhile is_digit r1 \<noteq> [] \<and> starts_with ''xl'' (dropWhile is_digit r1)
          then [(''metal-'' @ takeWhile is_digit r1 @ ''xl'', drop 2 (dropWhile is_digit r1))]
          else [])"

definition alt_metal :: "string \<Rightarrow> (string \<times> string) list" where
  "alt_metal t =
     (if starts_with ''metal'' t then metal_xl (drop 5 t) @ [(''metal'', drop 5 t)] else [])"

definition candidates :: "string \<Rightarrow> (string \<times> string) list" where
  "candidates t =
     alt_xlarge t @ alt_metal t @ lit ''nano'' t @ lit ''micro'' t @ lit ''small'' t @
     lit ''medium'' t @ lit ''large'' t"

definition match_at :: "string \<Rightarrow> (string \<times> string) option" where
  "match_at t = find (\<lambda>gr. digits_to_end (snd gr)) (candidates t)"

text \<open>
  The substitution scans for the leftmost match and puts group 1 in its place. What
  follows a match is the empty string or one newline, where the pattern cannot match
  again, so it is copied.
\<close>

fun clean_instance_type :: "string \<Rightarrow> string" where
  "clean_instance_type [] = []"
| "clean_instance_type (c # cs) =
     (case match_at (c # cs) of
        Some gr \<Rightarrow> fst gr @ dropWhile is_digit (snd gr)
      | None \<Rightarrow> c # clean_instance_type cs)"



subsection \<open>\<open>clean_text\<close> and \<open>to_snake_case\<close>\<close>

text \<open>
  \<^verbatim>\<open>re.sub(r"[...]+", r, s)\<close> for a character class: every maximal run of characters of the
  class becomes the one character \<open>r\<close>.
\<close>

function sub_runs :: "(char \<Rightarrow> bool) \<Rightarrow> char \<Rightarrow> string \<Rightarrow> string" where
  "sub_runs P r [] = []"
| "sub_runs P r (c # cs) =
     (if P c then r # sub_runs P r (dropWhile P cs) else c # sub_runs P r cs)"
  by pat_completeness auto
termination
  by (relation "measure (\<lambda>(P, r, s). length s)") (auto simp: length_dropWhile_le less_Suc_eq_le)

definition is_ascii :: "char \<Rightarrow> bool" where
  "is_ascii c = (c \<le> CHR 0x7F)"

text \<open>
  \<^verbatim>\<open>text.encode("ascii", "ignore").decode("ascii")\<close> keeps the ASCII characters;
  \<^verbatim>\<open>re.sub(r"\s+", " ", cleaned).strip()\<close> follows.
\<close>

definition clean_text :: "string \<Rightarrow> string" where
  "clean_text text' = strip (sub_runs is_space CHR '' '' (filter is_ascii text'))"

text \<open>
  \<^verbatim>\<open>re.sub(r"[().]", "", text)\<close> deletes; \<^verbatim>\<open>re.sub(r"[/]", "_", text)\<close> replaces one
  character by one; \<^verbatim>\<open>re.sub(r"[\s\-]+", "_", text)\<close> and \<^verbatim>\<open>re.sub(r"_+", "_", text)\<close>
  replace runs; \<^verbatim>\<open>text.strip("_")\<close> ends.
\<close>

definition to_snake_case :: "string \<Rightarrow> string" where
  "to_snake_case text' =
     (let t1 = filter (\<lambda>c. c \<noteq> CHR ''('' \<and> c \<noteq> CHR '')'' \<and> c \<noteq> CHR ''.'') text';
          t2 = map (\<lambda>c. if c = CHR ''/'' then CHR ''_'' else c) t1;
          t3 = sub_runs (\<lambda>c. is_space c \<or> c = CHR ''-'') CHR ''_'' t2;
          t4 = lower t3;
          t5 = sub_runs (\<lambda>c. c = CHR ''_'') CHR ''_'' t4
      in strip_char CHR ''_'' t5)"

text \<open>
  The characters that leave no letter in a key: the deleted ones, the ones replaced by
  an underscore, and the underscore itself.
\<close>

definition key_sep :: "char \<Rightarrow> bool" where
  "key_sep c =
     (c = CHR ''('' \<or> c = CHR '')'' \<or> c = CHR ''.'' \<or> c = CHR ''/'' \<or> c = CHR ''-'' \<or>
      c = CHR ''_'' \<or> is_space c)"

text \<open>The characters of which every maximal run ends up as one underscore.\<close>

definition word_sep :: "char \<Rightarrow> bool" where
  "word_sep c = (c = CHR ''/'' \<or> c = CHR ''-'' \<or> c = CHR ''_'' \<or> is_space c)"

text \<open>Two underscores next to each other.\<close>

fun has_double :: "string \<Rightarrow> bool" where
  "has_double (a # b # cs) = ((a = CHR ''_'' \<and> b = CHR ''_'') \<or> has_double (b # cs))"
| "has_double _ = False"

subsection \<open>\<open>clean_hypervisor\<close> and \<open>clean_operating_system\<close>\<close>

text \<open>
  \<^verbatim>\<open>re.sub(r"\s*[*]+\s*$", "", hypervisor).strip()\<close>. A match runs to the end of the
  string, so it is read from the end: trailing whitespace, then the asterisks, then the
  whitespace before them, where the leftmost match starts.
\<close>

definition clean_hypervisor :: "string \<Rightarrow> string" where
  "clean_hypervisor hypervisor =
     (let r = dropWhile is_space (rev hypervisor)
      in if r \<noteq> [] \<and> hd r = CHR ''*''
         then strip (rev (dropWhile is_space (dropWhile (\<lambda>c. c = CHR ''*'') r)))
         else strip hypervisor)"

text \<open>
  \<^verbatim>\<open>re.sub(r"\d+$", "", val)\<close>: the digits at the end, or before a newline that ends the
  string, go.
\<close>

definition drop_end_digits :: "string \<Rightarrow> string" where
  "drop_end_digits val =
     (case rev val of
        [] \<Rightarrow> []
      | c # r \<Rightarrow>
          if c = newline then rev (c # dropWhile is_digit r)
          else rev (dropWhile is_digit (c # r)))"

text \<open>
  \<^verbatim>\<open>re.sub(r"\s*\([^)]*\)\s*$", "", cleaned)\<close>: the last character that is not
  whitespace must be a closing parenthesis; the match starts at the leftmost opening
  parenthesis with no closing one between the two, and at the whitespace before it.
\<close>

definition drop_end_parens :: "string \<Rightarrow> string" where
  "drop_end_parens cleaned =
     (case dropWhile is_space (rev cleaned) of
        [] \<Rightarrow> cleaned
      | c # r1 \<Rightarrow>
          if c = CHR '')'' \<and> CHR ''('' \<in> set (takeWhile (\<lambda>x. x \<noteq> CHR '')'') r1)
          then rev (dropWhile is_space
                 (drop (length (dropWhile (\<lambda>x. x \<noteq> CHR ''('')
                                  (rev (takeWhile (\<lambda>x. x \<noteq> CHR '')'') r1)))) r1))
          else cleaned)"

definition clean_single :: "string \<Rightarrow> string" where
  "clean_single val = strip (drop_end_parens (drop_end_digits val))"

section \<open>Value Coercer\<close>

text \<open>
  The values a cell can hold after \<open>parse_basic_value\<close>. The type \<open>'f\<close> is Python's
  \<open>float\<close>; its two conversions are taken as they come from the language:
  \<open>float_of_str\<close> is \<^verbatim>\<open>float(s)\<close> with \<open>None\<close> for \<^verbatim>\<open>ValueError\<close>, \<open>float_of_int\<close> is
  \<^verbatim>\<open>float(n)\<close> with \<open>None\<close> for \<^verbatim>\<open>OverflowError\<close>, \<open>float_zero\<close> is \<^verbatim>\<open>0.0\<close>.
\<close>

datatype 'f pyval = PStr string | PBool bool | PInt int | PFloat 'f | PList "string list" | PNone

record 'f floats =
  float_of_str :: "string \<Rightarrow> 'f option"
  float_of_int :: "int \<Rightarrow> 'f option"
  float_zero :: 'f

text \<open>
  \<^verbatim>\<open>int(s)\<close> on ASCII text: surrounding whitespace (for \<^verbatim>\<open>int\<close> only 0x09-0x0D and
  the space), an optional sign, then digits with single underscores allowed between
  them; \<open>None\<close> is \<^verbatim>\<open>ValueError\<close>.
\<close>

definition is_c_space :: "char \<Rightarrow> bool" where
  "is_c_space c = ((CHR 0x09 \<le> c \<and> c \<le> CHR 0x0D) \<or> c = CHR 0x20)"

definition digit_value :: "char \<Rightarrow> nat" where
  "digit_value c = of_char c - 48"

definition dec_value :: "string \<Rightarrow> nat" where
  "dec_value ds = foldl (\<lambda>n c. 10 * n + digit_value c) 0 ds"

definition int_body :: "string \<Rightarrow> bool" where
  "int_body b =
     (b \<noteq> [] \<and> list_all (\<lambda>c. is_digit c \<or> c = CHR ''_'') b \<and> is_digit (hd b) \<and>
      is_digit (last b) \<and> \<not> sublist ''__'' b)"

definition py_int :: "string \<Rightarrow> int option" where
  "py_int s =
     (case rev (dropWhile is_c_space (rev (dropWhile is_c_space s))) of
        [] \<Rightarrow> None
      | c # r \<Rightarrow>
          if c = CHR ''-'' then (if int_body r then Some (- int (dec_value (filter is_digit r))) else None)
          else if c = CHR ''+'' then (if int_body r then Some (int (dec_value (filter is_digit r))) else None)
          else if int_body (c # r) then Some (int (dec_value (filter is_digit (c # r))))
          else None)"

text \<open>
  For the worked examples the rationals stand in for Python's floats: \<open>decimal_of_str\<close>
  reads a plain decimal literal exactly, and every integer converts.
\<close>

definition decimal_of_str :: "string \<Rightarrow> rat option" where
  "decimal_of_str s =
     (case split CHR ''.'' s of
        [a, b] \<Rightarrow>
          if a \<noteq> [] \<and> b \<noteq> [] \<and> list_all is_digit (a @ b)
          then Some (of_nat (dec_value (a @ b)) / of_nat (10 ^ length b)) else None
      | _ \<Rightarrow> None)"

definition decimal_floats :: "rat floats" where
  "decimal_floats =
     \<lparr>float_of_str = decimal_of_str, float_of_int = (\<lambda>n. Some (of_int n)), float_zero = 0\<rparr>"

definition parse_basic_value :: "'f floats \<Rightarrow> string \<Rightarrow> 'f pyval" where
  "parse_basic_value F v =
     (if v = [] then PStr v
      else if lower v = ''yes'' then PBool True
      else if lower v = ''no'' then PBool False
      else if CHR ''|'' \<in> set v
        then PList (filter (\<lambda>item. item \<noteq> []) (map strip (split CHR ''|'' v)))
      else if CHR ''.'' \<in> set v
        then (case float_of_str F v of Some x \<Rightarrow> PFloat x | None \<Rightarrow> PStr v)
      else (case py_int v of Some n \<Rightarrow> PInt n | None \<Rightarrow> PStr v))"

record 'f BandwidthSpec =
  baseline :: "'f option"
  burst :: "'f option"

record VolumeLimitSpec =
  limit :: int
  limitType :: string

text \<open>What \<open>parse_bandwidth\<close> returns: a \<open>BandwidthSpec\<close> or the descriptive string.\<close>

datatype 'f bandwidth = Bandwidth "'f BandwidthSpec" | Descriptive string

text \<open>
  \<^verbatim>\<open>isinstance(value, (int, float))\<close> holds for a \<open>bool\<close> too, whose \<^verbatim>\<open>float\<close> is that of
  0 or 1.
\<close>

definition parse_bandwidth :: "'f floats \<Rightarrow> 'f pyval \<Rightarrow> error + 'f bandwidth" where
  "parse_bandwidth F v =
     (case v of
        PInt n \<Rightarrow>
          (case float_of_int F n of
             None \<Rightarrow> Inl OverflowError
           | Some x \<Rightarrow> Inr (Bandwidth \<lparr>baseline = Some x, burst = None\<rparr>))
      | PBool b \<Rightarrow>
          (case float_of_int F (if b then 1 else 0) of
             None \<Rightarrow> Inl OverflowError
           | Some x \<Rightarrow> Inr (Bandwidth \<lparr>baseline = Some x, burst = None\<rparr>))
      | PFloat x \<Rightarrow> Inr (Bandwidth \<lparr>baseline = Some x, burst = None\<rparr>)
      | PStr s \<Rightarrow>
          (if CHR ''/'' \<in> set s \<and> \<not> contains ''Gigabit'' s
           then (case split CHR ''/'' s of
                   [a, b] \<Rightarrow>
                     (case float_of_str F (strip a) of
                        None \<Rightarrow> Inr (Descriptive s)
                      | Some x \<Rightarrow>
                          (case float_of_str F (strip b) of
                             None \<Rightarrow> Inr (Descriptive s)
                           | Some y \<Rightarrow> Inr (Bandwidth \<lparr>baseline = Some x, burst = Some y\<rparr>)))
                 | _ \<Rightarrow> Inr (Descriptive s))
           else Inr (Descriptive s))
      | _ \<Rightarrow> Inr (Bandwidth \<lparr>baseline = None, burst = None\<rparr>))"

subsection \<open>\<open>parse_volume_limit\<close>\<close>











section \<open>Table Extractor\<close>

text \<open>
  What \<open>parse_table\<close> reads of an HTML table: the texts of the \<^verbatim>\<open>th\<close> cells of its
  \<^verbatim>\<open>thead\<close>, when it has one, and for every \<^verbatim>\<open>tr\<close> of the row container the texts of
  its \<^verbatim>\<open>td\<close> cells, each as \<^verbatim>\<open>get_text(strip=True)\<close> gives it.
\<close>

record html_table =
  thead :: "string list option"
  trs :: "string list list"

text \<open>The decimal numeral of \<^verbatim>\<open>f"column_{i}"\<close>.\<close>

function str_of_nat :: "nat \<Rightarrow> string" where
  "str_of_nat n =
     (if n < 10 then [char_of (48 + n)]
      else str_of_nat (n div 10) @ [char_of (48 + n mod 10)])"
  by pat_completeness auto
termination
  by (relation "measure id") auto

declare str_of_nat.simps [simp del]

definition clean_operating_system :: "'f pyval \<Rightarrow> string list" where
  "clean_operating_system os_value =
     (case os_value of
        PStr s \<Rightarrow> [clean_single s]
      | PList vs \<Rightarrow> map clean_single vs
      | _ \<Rightarrow> [])"

text \<open>
  One cell of a row: cleaned, coerced, cleaned again by its header, and stored under the
  header or under its position. A dictionary is an association list in insertion order;
  storing under a key already there replaces the value in place.
\<close>

definition cell_value :: "'f floats \<Rightarrow> string \<Rightarrow> string \<Rightarrow> 'f pyval" where
  "cell_value F header cell =
     (let value = parse_basic_value F (clean_text cell)
      in if header = ''instance_type''
         then (case value of PStr s \<Rightarrow> PStr (clean_instance_type s) | _ \<Rightarrow> value)
         else if header = ''hypervisor''
         then (case value of PStr s \<Rightarrow> PStr (clean_hypervisor s) | _ \<Rightarrow> value)
         else if header = ''supported_operating_systems''
         then PList (clean_operating_system value)
         else value)"

fun fill_row ::
  "'f floats \<Rightarrow> string list \<Rightarrow> nat \<Rightarrow> string list \<Rightarrow> (string \<times> 'f pyval) list \<Rightarrow>
   (string \<times> 'f pyval) list" where
  "fill_row F headers i [] row_data = row_data"
| "fill_row F headers i (cell # cells) row_data =
     fill_row F headers (Suc i) cells
       (if i < length headers
        then AList.update (headers ! i) (cell_value F (headers ! i) cell) row_data
        else AList.update (''column_'' @ str_of_nat i) (parse_basic_value F (clean_text cell))
               row_data)"

definition table_headers :: "html_table \<Rightarrow> string list" where
  "table_headers t =
     (case thead t of None \<Rightarrow> [] | Some ths \<Rightarrow> map (\<lambda>th. to_snake_case (clean_text th)) ths)"

text \<open>The rows a \<^verbatim>\<open>tr\<close> contributes: none or one.\<close>

definition parse_row :: "'f floats \<Rightarrow> string list \<Rightarrow> string list \<Rightarrow> (string \<times> 'f pyval) list list" where
  "parse_row F headers cells =
     (if cells = [] then []
      else (let row_data = fill_row F headers 0 cells []
            in if row_data \<noteq> [] \<and> length row_data > 1 then [row_data] else []))"

definition parse_table :: "'f floats \<Rightarrow> html_table \<Rightarrow> (string \<times> 'f pyval) list list" where
  "parse_table F t = concat (map (parse_row F (table_headers t)) (trs t))"

text \<open>The key under which the cell at position \<open>i\<close> is stored.\<close>

definition cell_key :: "string list \<Rightarrow> nat \<Rightarrow> string" where
  "cell_key headers i = (if i < length headers then headers ! i else ''column_'' @ str_of_nat i)"

section \<open>Record Builder\<close>

text \<open>
  \<^verbatim>\<open>family_part[0].upper() + family_part[1:]\<close> raises \<^verbatim>\<open>IndexError\<close> on an empty first
  segment; \<^verbatim>\<open>split\<close> never returns the empty list, so the guard on \<open>parts\<close> never
  takes its other branch.
\<close>

definition capitalize_first :: "string \<Rightarrow> error + string" where
  "capitalize_first family_part =
     (case family_part of [] \<Rightarrow> Inl IndexError | c # cs \<Rightarrow> Inr (upper_char c # cs))"

definition extract_family_from_instance_type :: "string \<Rightarrow> error + string" where
  "extract_family_from_instance_type instance_type =
     (case split CHR ''.'' instance_type of
        [] \<Rightarrow> Inr instance_type
      | family_part # rest \<Rightarrow> capitalize_first family_part)"

definition extract_rds_family :: "string \<Rightarrow> error + string" where
  "extract_rds_family instance_class =
     (if starts_with ''db.'' instance_class
      then (case split CHR ''.'' (drop 3 instance_class) of
              [] \<Rightarrow> Inr instance_class
            | family_part # rest \<Rightarrow> capitalize_first family_part)
      else Inr instance_class)"

definition extract_elasticache_family :: "string \<Rightarrow> error + string" where
  "extract_elasticache_family node_type =
     (if starts_with ''cache.'' node_type
      then (case split CHR ''.'' (drop 6 node_type) of
              [] \<Rightarrow> Inr node_type
            | family_part # rest \<Rightarrow> capitalize_first family_part)
      else Inr node_type)"

definition determine_rds_category :: "string \<Rightarrow> string" where
  "determine_rds_category family =
     (let family_lower = lower family
      in if starts_with ''t'' family_lower then ''burstable_performance''
         else if starts_with ''r'' family_lower \<or> starts_with ''x'' family_lower \<or>
                 starts_with ''z'' family_lower then ''memory_optimized''
         else if starts_with ''c'' family_lower then ''compute_optimized''
         else ''general_purpose'')"

definition determine_elasticache_category :: "string \<Rightarrow> string" where
  "determine_elasticache_category family =
     (let family_lower = lower family
      in if starts_with ''t'' family_lower then ''burstable_performance''
         else if starts_with ''r'' family_lower then ''memory_optimized''
         else if starts_with ''c'' family_lower then ''network_optimized''
         else ''general_purpose'')"

text \<open>\<^verbatim>\<open>raw.get(key, default)\<close> on a row whose values are strings.\<close>

definition dict_get :: "(string \<times> 'v) list \<Rightarrow> string \<Rightarrow> 'v \<Rightarrow> 'v" where
  "dict_get raw key dflt = (case map_of raw key of None \<Rightarrow> dflt | Some v \<Rightarrow> v)"

record 'f RDSInstanceDetails =
  rds_instanceClass :: string
  rds_family :: string
  rds_category :: string
  rds_vCPUs :: int
  rds_memoryGiB :: 'f
  rds_networkBandwidthGbps :: string
  rds_ebsBandwidthMbps :: string

definition rds_details ::
  "'f floats \<Rightarrow> (string \<times> string) list \<Rightarrow> string \<Rightarrow> string \<Rightarrow> 'f RDSInstanceDetails" where
  "rds_details F raw instance_class family =
     \<lparr>rds_instanceClass = instance_class,
      rds_family = family,
      rds_category = determine_rds_category family,
      rds_vCPUs =
        (case py_int (dict_get raw ''vcpu'' (dict_get raw ''vcpus'' ''0'')) of
           None \<Rightarrow> 0 | Some n \<Rightarrow> n),
      rds_memoryGiB =
        (case float_of_str F
                (filter (\<lambda>c. c \<noteq> CHR '','')
                   (dict_get raw ''memory_gib'' (dict_get raw ''memory'' ''0''))) of
           None \<Rightarrow> float_zero F | Some x \<Rightarrow> x),
      rds_networkBandwidthGbps =
        dict_get raw ''network_bandwidth_gbps'' (dict_get raw ''network_bandwidth'' []),
      rds_ebsBandwidthMbps =
        dict_get raw ''max_ebs_bandwidth_mbps'' (dict_get raw ''ebs_bandwidth'' [])\<rparr>"

text \<open>
  The loop of \<open>process_rds_data\<close>, with the dictionary built so far. A later row of the
  same instance class replaces the record of an earlier one.
\<close>

fun process_rds_rows ::
  "'f floats \<Rightarrow> (string \<times> string) list list \<Rightarrow> (string \<times> 'f RDSInstanceDetails) list \<Rightarrow>
   error + (string \<times> 'f RDSInstanceDetails) list" where
  "process_rds_rows F [] instances = Inr instances"
| "process_rds_rows F (raw # rest) instances =
     (let instance_class = dict_get raw ''instance_class'' []
      in if instance_class = [] \<or> \<not> starts_with ''db.'' instance_class
         then process_rds_rows F rest instances
         else (case extract_rds_family instance_class of
                 Inl e \<Rightarrow> Inl e
               | Inr family \<Rightarrow>
                   process_rds_rows F rest
                     (AList.update instance_class (rds_details F raw instance_class family)
                        instances)))"

definition process_rds_data ::
  "'f floats \<Rightarrow> (string \<times> string) list list \<Rightarrow> error + (string \<times> 'f RDSInstanceDetails) list" where
  "process_rds_data F raw_instances = process_rds_rows F raw_instances []"

record 'f ElastiCacheNodeDetails =
  cache_nodeType :: string
  cache_family :: string
  cache_category :: string
  cache_vCPUs :: "int option"
  cache_memoryGiB :: "'f option"
  cache_networkPerformance :: string
  cache_baselineBandwidthGbps :: "string option"
  cache_burstBandwidthGbps :: "string option"

text \<open>\<^verbatim>\<open>str(v) if v else None\<close>.\<close>

definition nonempty :: "string \<Rightarrow> string option" where
  "nonempty s = (if s = [] then None else Some s)"

definition elasticache_details ::
  "'f floats \<Rightarrow> (string \<times> string) list \<Rightarrow> string \<Rightarrow> string \<Rightarrow> 'f ElastiCacheNodeDetails" where
  "elasticache_details F raw node_type family =
     \<lparr>cache_nodeType = node_type,
      cache_family = family,
      cache_category = determine_elasticache_category family,
      cache_vCPUs =
        (let vcpus_str = dict_get raw ''vcpus'' (dict_get raw ''vcpu'' [])
         in if vcpus_str = [] then None else py_int vcpus_str),
      cache_memoryGiB =
        (let memory_str = dict_get raw ''memory_gib'' (dict_get raw ''memory'' [])
         in if memory_str = [] then None
            else float_of_str F (filter (\<lambda>c. c \<noteq> CHR '','') memory_str)),
      cache_networkPerformance = dict_get raw ''network_performance'' [],
      cache_baselineBandwidthGbps =
        nonempty (dict_get raw ''baseline_bandwidth_gbps'' (dict_get raw ''baseline_gbps'' [])),
      cache_burstBandwidthGbps =
        nonempty (dict_get raw ''burst_bandwidth_gbps'' (dict_get raw ''burst_gbps'' []))\<rparr>"

text \<open>
  The loop of \<open>process_elasticache_data\<close>: a row whose node type is already in the
  dictionary is skipped.
\<close>

fun process_elasticache_rows ::
  "'f floats \<Rightarrow> (string \<times> string) list list \<Rightarrow> (string \<times> 'f ElastiCacheNodeDetails) list \<Rightarrow>
   error + (string \<times> 'f ElastiCacheNodeDetails) list" where
  "process_elasticache_rows F [] nodes = Inr nodes"
| "process_elasticache_rows F (raw # rest) nodes =
     (let node_type = dict_get raw ''node_type'' []
      in if node_type = [] \<or> \<not> starts_with ''cache.'' node_type
         then process_elasticache_rows F rest nodes
         else if node_type \<in> set (map fst nodes)
         then process_elasticache_rows F rest nodes
         else (case extract_elasticache_family node_type of
                 Inl e \<Rightarrow> Inl e
               | Inr family \<Rightarrow>
                   process_elasticache_rows F rest
                     (nodes @ [(node_type, elasticache_details F raw node_type family)])))"

definition process_elasticache_data ::
  "'f floats \<Rightarrow> (string \<times> string) list list \<Rightarrow>
   error + (string \<times> 'f ElastiCacheNodeDetails) list" where
  "process_elasticache_data F raw_nodes = process_elasticache_rows F raw_nodes []"

text \<open>
  \<open>parse_elasticache_table\<close>: cells are cleaned but not coerced;
  \<^verbatim>\<open>re.sub(r"[*]+$", "", node_type).strip()\<close> cleans the node type.
\<close>

definition clean_elasticache_node_type :: "string \<Rightarrow> string" where
  "clean_elasticache_node_type node_type =
     strip (case rev node_type of
              [] \<Rightarrow> []
            | c # r \<Rightarrow>
                if c = newline then rev (c # dropWhile (\<lambda>x. x = CHR ''*'') r)
                else rev (dropWhile (\<lambda>x. x = CHR ''*'') (c # r)))"

fun fill_elasticache_row ::
  "string list \<Rightarrow> nat \<Rightarrow> string list \<Rightarrow> (string \<times> string) list \<Rightarrow> (string \<times> string) list" where
  "fill_elasticache_row headers i [] row_data = row_data"
| "fill_elasticache_row headers i (cell # cells) row_data =
     fill_elasticache_row headers (Suc i) cells
       (if i < length headers
        then AList.update (headers ! i)
               (if headers ! i = ''node_type'' \<or> headers ! i = ''instance_type''
                then clean_elasticache_node_type (clean_text cell) else clean_text cell)
               row_data
        else AList.update (''column_'' @ str_of_nat i) (clean_text cell) row_data)"

text \<open>
  \<^verbatim>\<open>row_data.get("node_type") or row_data.get("instance_type")\<close>, \<open>None\<close> when both are
  missing.
\<close>

definition row_node_type :: "(string \<times> string) list \<Rightarrow> string option" where
  "row_node_type row_data =
     (case map_of row_data ''node_type'' of
        None \<Rightarrow> map_of row_data ''instance_type''
      | Some v \<Rightarrow> if v = [] then map_of row_data ''instance_type'' else Some v)"

definition parse_elasticache_row :: "string list \<Rightarrow> string list \<Rightarrow> (string \<times> string) list list" where
  "parse_elasticache_row headers cells =
     (if cells = [] then []
      else (let row_data = fill_elasticache_row headers 0 cells []
            in case row_node_type row_data of
                 None \<Rightarrow> []
               | Some node_type \<Rightarrow>
                   if node_type \<noteq> [] \<and> starts_with ''cache.'' node_type
                   then [AList.update ''node_type'' node_type row_data] else []))"

definition parse_elasticache_table :: "html_table \<Rightarrow> (string \<times> string) list list" where
  "parse_elasticache_table t = concat (map (parse_elasticache_row (table_headers t)) (trs t))"

section \<open>Grouping and Manifest Builder\<close>

definition EC2_CATEGORIES :: "(string \<times> string) list" where
  "EC2_CATEGORIES =
     [(''general_purpose'', ''https://docs.aws.amazon.com/ec2/latest/instancetypes/gp.html''),
      (''compute_optimized'', ''https://docs.aws.amazon.com/ec2/latest/instancetypes/co.html''),
      (''memory_optimized'', ''https://docs.aws.amazon.com/ec2/latest/instancetypes/mo.html''),
      (''storage_optimized'', ''https://docs.aws.amazon.com/ec2/latest/instancetypes/so.html''),
      (''accelerated_computing'', ''https://docs.aws.amazon.com/ec2/latest/instancetypes/ac.html''),
      (''hpc'', ''https://docs.aws.amazon.com/ec2/latest/instancetypes/hpc.html'')]"

definition RDS_CATEGORIES :: "string list" where
  "RDS_CATEGORIES =
     [''general_purpose'', ''memory_optimized'', ''compute_optimized'', ''burstable_performance'']"

definition ELASTICACHE_CATEGORIES :: "string list" where
  "ELASTICACHE_CATEGORIES =
     [''general_purpose'', ''memory_optimized'', ''network_optimized'', ''burstable_performance'']"

text \<open>
  The \<open>info\<close> dictionary each \<open>write_*_info_file\<close> hands to the JSON writer; the
  entity keys are its \<open>instances\<close> (for Elasticache, its \<open>nodeTypes\<close>). A dictionary
  argument is an association list with distinct keys, in insertion order.
\<close>

record info =
  info_families :: "string list"
  info_instances :: "string list"
  info_categories :: "string list"

definition write_ec2_info_file :: "(string \<times> 'a) list \<Rightarrow> (string \<times> 'b) list \<Rightarrow> info" where
  "write_ec2_info_file families instances =
     \<lparr>info_families = sort (map fst families),
      info_instances = sort (map fst instances),
      info_categories = map fst EC2_CATEGORIES\<rparr>"

definition write_rds_info_file :: "(string \<times> 'a) list \<Rightarrow> (string \<times> 'b) list \<Rightarrow> info" where
  "write_rds_info_file families instances =
     \<lparr>info_families = sort (map fst families),
      info_instances = sort (map fst instances),
      info_categories = RDS_CATEGORIES\<rparr>"

definition write_elasticache_info_file :: "(string \<times> 'a) list \<Rightarrow> (string \<times> 'b) list \<Rightarrow> info" where
  "write_elasticache_info_file families nodes =
     \<lparr>info_families = sort (map fst families),
      info_instances = sort (map fst nodes),
      info_categories = ELASTICACHE_CATEGORIES\<rparr>"

section \<open>Schema Emitter\<close>

text \<open>
  \<open>InstanceDetails\<close> as the dataclass declares it, the fields of the family summary and
  of the performance table flattened into it. The type \<open>'x\<close> is that of the nested
  specifications, which the emitter does not read.
\<close>

record ('f, 'x) InstanceDetails =
  instanceType :: string
  family :: string
  category :: string
  hypervisor :: string
  processorArchitecture :: string
  metalAvailable :: bool
  dedicatedHosts :: bool
  spot :: bool
  hibernation :: bool
  operatingSystems :: "string list"
  memoryGiB :: 'f
  processor :: string
  vCPUs :: int
  cpuCores :: int
  threadsPerCore :: int
  accelerators :: "string option"
  acceleratorMemory :: "string option"
  network :: 'x
  ebs :: 'x
  instanceStore :: "'x option"
  security :: 'x

text \<open>The value of an attribute.\<close>

datatype ('f, 'x) attr =
  AStr string | AList "string list" | ABool bool | AInt int | AFloat 'f | ANone | ASpec 'x

definition opt_str :: "string option \<Rightarrow> ('f, 'x) attr" where
  "opt_str v = (case v of None \<Rightarrow> ANone | Some s \<Rightarrow> AStr s)"

text \<open>
  \<^verbatim>\<open>d.name\<close> on an \<open>InstanceDetails\<close>: the value of the field of that name, and
  \<^verbatim>\<open>AttributeError\<close> for a name that is not a field of the dataclass.
\<close>

definition getattr_details :: "('f, 'x) InstanceDetails \<Rightarrow> string \<Rightarrow> error + ('f, 'x) attr" where
  "getattr_details d name =
     (if name = ''instanceType'' then Inr (AStr (instanceType d))
      else if name = ''family'' then Inr (AStr (family d))
      else if name = ''category'' then Inr (AStr (category d))
      else if name = ''hypervisor'' then Inr (AStr (hypervisor d))
      else if name = ''processorArchitecture'' then Inr (AStr (processorArchitecture d))
      else if name = ''metalAvailable'' then Inr (ABool (metalAvailable d))
      else if name = ''dedicatedHosts'' then Inr (ABool (dedicatedHosts d))
      else if name = ''spot'' then Inr (ABool (spot d))
      else if name = ''hibernation'' then Inr (ABool (hibernation d))
      else if name = ''operatingSystems'' then Inr (AList (operatingSystems d))
      else if name = ''memoryGiB'' then Inr (AFloat (memoryGiB d))
      else if name = ''processor'' then Inr (AStr (processor d))
      else if name = ''vCPUs'' then Inr (AInt (vCPUs d))
      else if name = ''cpuCores'' then Inr (AInt (cpuCores d))
      else if name = ''threadsPerCore'' then Inr (AInt (threadsPerCore d))
      else if name = ''accelerators'' then Inr (opt_str (accelerators d))
      else if name = ''acceleratorMemory'' then Inr (opt_str (acceleratorMemory d))
      else if name = ''network'' then Inr (ASpec (network d))
      else if name = ''ebs'' then Inr (ASpec (ebs d))
      else if name = ''instanceStore''
        then Inr (case instanceStore d of None \<Rightarrow> ANone | Some x \<Rightarrow> ASpec x)
      else if name = ''security'' then Inr (ASpec (security d))
      else Inl AttributeError)"

text \<open>
  An extractor \<^verbatim>\<open>lambda d: d.a.b\<close>. The second lookup, on the value of the first, is
  \<open>get2\<close>: attribute lookup on a field value, whatever it does.
\<close>

definition attr_path ::
  "(('f, 'x) attr \<Rightarrow> string \<Rightarrow> error + ('f, 'x) attr) \<Rightarrow> string \<Rightarrow> string \<Rightarrow>
   ('f, 'x) InstanceDetails \<Rightarrow> error + ('f, 'x) attr" where
  "attr_path get2 a b d = (case getattr_details d a of Inl e \<Rightarrow> Inl e | Inr v \<Rightarrow> get2 v b)"

text \<open>
  The loop of \<open>extract_unique_values\<close>: the three exceptions of its \<^verbatim>\<open>except\<close> clause
  are swallowed, any other goes to the caller.
\<close>

fun collect_values ::
  "'d list \<Rightarrow> ('d \<Rightarrow> error + ('f, 'x) attr) \<Rightarrow> string set \<Rightarrow> error + string set" where
  "collect_values [] extractor values = Inr values"
| "collect_values (details # rest) extractor values =
     (case extractor details of
        Inl e \<Rightarrow>
          if e = AttributeError \<or> e = KeyError \<or> e = TypeError
          then collect_values rest extractor values else Inl e
      | Inr value \<Rightarrow>
          (case value of
             AStr s \<Rightarrow> collect_values rest extractor (if s \<noteq> [] then insert s values else values)
           | AList vs \<Rightarrow> collect_values rest extractor (values \<union> set (filter (\<lambda>v. v \<noteq> []) vs))
           | _ \<Rightarrow> collect_values rest extractor values))"

definition extract_unique_values ::
  "(string \<times> 'd) list \<Rightarrow> ('d \<Rightarrow> error + ('f, 'x) attr) \<Rightarrow> error + string set" where
  "extract_unique_values instances extractor = collect_values (map snd instances) extractor {}"

text \<open>\<^verbatim>\<open>sep.join(xs)\<close>.\<close>

fun join :: "string \<Rightarrow> string list \<Rightarrow> string" where
  "join sep [] = []"
| "join sep [x] = x"
| "join sep (x # y # ys) = x @ sep @ join sep (y # ys)"

definition union_member :: "string \<Rightarrow> string" where
  "union_member v = ''  | '' @ [dquote] @ v @ [dquote]"

definition generate_union_type :: "string \<Rightarrow> string set \<Rightarrow> string" where
  "generate_union_type name values =
     (if values = {} then ''export type '' @ name @ '' = string;'' @ [newline]
      else ''export type '' @ name @ '' ='' @ [newline] @
           join [newline] (map union_member (sorted_list_of_set values)) @ '';'' @ [newline])"

text \<open>A literal of several lines: every line with its newline.\<close>

definition lines_text :: "string list \<Rightarrow> string" where
  "lines_text ls = concat (map (\<lambda>l. l @ [newline]) ls)"

definition rule_line :: string where
  "rule_line = ''// ============================================================''"

text \<open>The lines of the literal that declares the EC2 interfaces.\<close>

definition ec2_interfaces :: "string list" where
  "ec2_interfaces =
     [''// === EC2 Interfaces ==='',
      [],
      ''export interface BandwidthSpec {'',
      ''  baseline: number | null;'',
      ''  burst: number | null;'',
      ''}'',
      [],
      ''export interface VolumeLimitSpec {'',
      ''  limit: number;'',
      ''  limitType: string;'',
      ''}'',
      [],
      ''export interface EC2NetworkSpec {'',
      ''  bandwidthGbps: BandwidthSpec | string;'',
      ''  efa: boolean;'',
      ''  ena: boolean | string;'',
      ''  enaExpress: boolean;'',
      ''  networkCards: number;'',
      ''  maxInterfaces: number;'',
      ''  ipv4PerInterface: number;'',
      ''  ipv6: boolean;'',
      ''}'',
      [],
      ''export interface EC2EBSSpec {'',
      ''  bandwidthMbps: BandwidthSpec | string;'',
      ''  throughputMBps: BandwidthSpec | string;'',
      ''  iops: BandwidthSpec | string;'',
      ''  nvme: boolean;'',
      ''  volumeLimit: VolumeLimitSpec | string;'',
      ''}'',
      [],
      ''export interface EC2InstanceStoreSpec {'',
      ''  volumes: string;'',
      ''  storeType: string;'',
      ''  readIOPS: string;'',
      ''  writeIOPS: string;'',
      ''  needsInit: boolean | null;'',
      ''  trimSupport: boolean | null;'',
      ''}'',
      [],
      ''export interface EC2SecuritySpec {'',
      ''  ebsEncryption: boolean;'',
      ''  instanceStoreEncryption: boolean | string | null;'',
      ''  encryptionInTransit: boolean;'',
      ''  amdSEVSNP: boolean;'',
      ''  nitroTPM: boolean;'',
      ''  nitroEnclaves: boolean;'',
      ''}'',
      [],
      ''export interface EC2InstanceDetails {'',
      ''  instanceType: EC2InstanceType;'',
      ''  family: EC2InstanceFamily;'',
      ''  category: EC2Category;'',
      ''  // Flattened familySummary fields'',
      ''  hypervisor: EC2Hypervisor;'',
      ''  processorArchitecture: EC2ProcessorArchitecture;'',
      ''  metalAvailable: boolean;'',
      ''  dedicatedHosts: boolean;'',
      ''  spot: boolean;'',
      ''  hibernation: boolean;'',
      ''  operatingSystems: EC2OperatingSystem[];'',
      ''  // Flattened performance fields'',
      ''  memoryGiB: number;'',
      ''  processor: EC2Processor;'',
      ''  vCPUs: number;'',
      ''  cpuCores: number;'',
      ''  threadsPerCore: number;'',
      ''  accelerators: EC2Accelerator | null;'',
      ''  acceleratorMemory: string | null;'',
      ''  // Nested specs'',
      ''  network: EC2NetworkSpec;'',
      ''  ebs: EC2EBSSpec;'',
      ''  instanceStore: EC2InstanceStoreSpec | null;'',
      ''  security: EC2SecuritySpec;'',
      ''}'',
      [],
      ''export interface EC2FamilyData {'',
      ''  family: EC2InstanceFamily;'',
      ''  category: EC2Category;'',
      ''  instanceTypes: EC2InstanceType[];'',
      ''  hypervisor: EC2Hypervisor;'',
      ''  processorArchitecture: EC2ProcessorArchitecture;'',
      ''  metalAvailable: boolean;'',
      ''  dedicatedHosts: boolean;'',
      ''  spot: boolean;'',
      ''  hibernation: boolean;'',
      ''  operatingSystems: EC2OperatingSystem[];'',
      ''}'',
      [],
      ''export interface EC2Info {'',
      ''  families: EC2InstanceFamily[];'',
      ''  instances: EC2InstanceType[];'',
      ''  categories: EC2Category[];'',
      ''}'',
      []]"

text \<open>The lines of the literal that declares the RDS interfaces.\<close>

definition rds_interfaces :: "string list" where
  "rds_interfaces =
     [''// === RDS Interfaces ==='',
      [],
      ''export interface RDSInstanceDetails {'',
      ''  instanceClass: RDSInstanceClass;'',
      ''  family: RDSInstanceFamily;'',
      ''  category: RDSCategory;'',
      ''  vCPUs: number;'',
      ''  memoryGiB: number;'',
      ''  networkBandwidthGbps: string;'',
      ''  ebsBandwidthMbps: string;'',
      ''}'',
      [],
      ''export interface RDSFamilyData {'',
      ''  family: RDSInstanceFamily;'',
      ''  category: RDSCategory;'',
      ''  instanceClasses: RDSInstanceClass[];'',
      ''}'',
      [],
      ''export interface RDSInfo {'',
      ''  families: RDSInstanceFamily[];'',
      ''  instances: RDSInstanceClass[];'',
      ''  categories: RDSCategory[];'',
      ''}'']"

text \<open>The lines of the literal that declares the Elasticache interfaces.\<close>

definition elasticache_interfaces :: "string list" where
  "elasticache_interfaces =
     [''// === Elasticache Interfaces ==='',
      [],
      ''export interface ElastiCacheNodeDetails {'',
      ''  nodeType: ElastiCacheNodeType;'',
      ''  family: ElastiCacheFamily;'',
      ''  category: ElastiCacheCategory;'',
      ''  vCPUs: number | null;'',
      ''  memoryGiB: number | null;'',
      ''  networkPerformance: string;'',
      ''  baselineBandwidthGbps: string | null;'',
      ''  burstBandwidthGbps: string | null;'',
      ''}'',
      [],
      ''export interface ElastiCacheFamilyData {'',
      ''  family: ElastiCacheFamily;'',
      ''  category: ElastiCacheCategory;'',
      ''  nodeTypes: ElastiCacheNodeType[];'',
      ''}'',
      [],
      ''export interface ElastiCacheInfo {'',
      ''  families: ElastiCacheFamily[];'',
      ''  nodeTypes: ElastiCacheNodeType[];'',
      ''  categories: ElastiCacheCategory[];'',
      ''}'']"

text \<open>The list \<open>ts_parts\<close>, from the sets of values the emitter has computed.\<close>

definition ts_parts ::
  "string set \<Rightarrow> string set \<Rightarrow> string set \<Rightarrow> string set \<Rightarrow> string set \<Rightarrow> string set \<Rightarrow>
   string set \<Rightarrow> string set \<Rightarrow> string set \<Rightarrow> string set \<Rightarrow> string set \<Rightarrow> string set \<Rightarrow>
   string set \<Rightarrow> string set \<Rightarrow> string list" where
  "ts_parts ec2_instance_types ec2_family_names ec2_categories hypervisors architectures
     processors operating_systems accelerator_names rds_instance_classes rds_family_names
     rds_categories elasticache_node_types elasticache_family_names elasticache_categories =
     [lines_text [''// Auto-generated by scripts/generate.py - DO NOT EDIT'', []],
      lines_text [rule_line],
      lines_text [''// EC2 Types''],
      lines_text [rule_line, []],
      generate_union_type ''EC2InstanceType'' ec2_instance_types,
      [newline],
      generate_union_type ''EC2InstanceFamily'' ec2_family_names,
      [newline],
      generate_union_type ''EC2Category'' ec2_categories,
      [newline],
      generate_union_type ''EC2Hypervisor'' hypervisors,
      [newline],
      generate_union_type ''EC2ProcessorArchitecture'' architectures,
      [newline],
      generate_union_type ''EC2Processor'' processors,
      [newline],
      generate_union_type ''EC2OperatingSystem'' operating_systems,
      [newline],
      generate_union_type ''EC2Accelerator'' accelerator_names,
      [newline],
      lines_text ec2_interfaces,
      lines_text [rule_line],
      lines_text [''// RDS Types''],
      lines_text [rule_line, []],
      generate_union_type ''RDSInstanceClass'' rds_instance_classes,
      [newline],
      generate_union_type ''RDSInstanceFamily'' rds_family_names,
      [newline],
      generate_union_type ''RDSCategory'' rds_categories,
      [newline],
      lines_text rds_interfaces,
      lines_text [rule_line],
      lines_text [''// Elasticache Types''],
      lines_text [rule_line, []],
      generate_union_type ''ElastiCacheNodeType'' elasticache_node_types,
      [newline],
      generate_union_type ''ElastiCacheFamily'' elasticache_family_names,
      [newline],
      generate_union_type ''ElastiCacheCategory'' elasticache_categories,
      [newline],
      lines_text elasticache_interfaces]"

text \<open>
  The five sets the emitter extracts from the EC2 instances, in the order it computes
  them: hypervisors, processors, architectures, operating systems, accelerators.
\<close>

definition enumerable_sets ::
  "(('f, 'x) attr \<Rightarrow> string \<Rightarrow> error + ('f, 'x) attr) \<Rightarrow>
   (string \<times> ('f, 'x) InstanceDetails) list \<Rightarrow>
   error + (string set \<times> string set \<times> string set \<times> string set \<times> string set)" where
  "enumerable_sets get2 ec2_instances =
     (case extract_unique_values ec2_instances (attr_path get2 ''familySummary'' ''hypervisor'') of
        Inl e \<Rightarrow> Inl e
      | Inr hypervisors \<Rightarrow>
     (case extract_unique_values ec2_instances (attr_path get2 ''performance'' ''processor'') of
        Inl e \<Rightarrow> Inl e
      | Inr processors \<Rightarrow>
     (case extract_unique_values ec2_instances
             (attr_path get2 ''familySummary'' ''processorArchitecture'') of
        Inl e \<Rightarrow> Inl e
      | Inr architectures \<Rightarrow>
     (case extract_unique_values ec2_instances
             (attr_path get2 ''familySummary'' ''operatingSystems'') of
        Inl e \<Rightarrow> Inl e
      | Inr operating_systems \<Rightarrow>
     (case extract_unique_values ec2_instances (attr_path get2 ''performance'' ''accelerators'') of
        Inl e \<Rightarrow> Inl e
      | Inr accelerator_names \<Rightarrow>
          Inr (hypervisors, processors, architectures, operating_systems, accelerator_names))))))"

definition generate_typescript_types ::
  "(('f, 'x) attr \<Rightarrow> string \<Rightarrow> error + ('f, 'x) attr) \<Rightarrow>
   (string \<times> ('f, 'x) InstanceDetails) list \<Rightarrow>
   (string \<times> 'a) list \<Rightarrow> (string \<times> 'b) list \<Rightarrow> (string \<times> 'c) list \<Rightarrow> (string \<times> 'd) list \<Rightarrow>
   (string \<times> 'e) list \<Rightarrow> error + string" where
  "generate_typescript_types get2 ec2_instances ec2_families rds_instances rds_families
     elasticache_nodes elasticache_families =
     (case enumerable_sets get2 ec2_instances of
        Inl e \<Rightarrow> Inl e
      | Inr (hypervisors, processors, architectures, operating_systems, accelerator_names) \<Rightarrow>
          Inr (concat
            (ts_parts (set (map fst ec2_instances)) (set (map fst ec2_families))
               (set (map fst EC2_CATEGORIES)) hypervisors architectures processors
               operating_systems accelerator_names (set (map fst rds_instances))
               (set (map fst rds_families)) (set RDS_CATEGORIES)
               (set (map fst elasticache_nodes)) (set (map fst elasticache_families))
               (set ELASTICACHE_CATEGORIES))))"




text \<open>
  An EC2 instance as the record builder makes it, for the worked examples, and the
  attribute lookup on field values that finds no attribute.
\<close>

definition example_instance :: "(rat, unit) InstanceDetails" where
  "example_instance =
     \<lparr>instanceType = ''m5.large'', family = ''M5'', category = ''general_purpose'',
      hypervisor = ''Nitro v2'', processorArchitecture = ''x86_64'', metalAvailable = True,
      dedicatedHosts = True, spot = True, hibernation = True, operatingSystems = [''Linux''],
      memoryGiB = 8, processor = ''Intel Xeon Platinum 8175'', vCPUs = 2, cpuCores = 1,
      threadsPerCore = 2, accelerators = None, acceleratorMemory = None, network = (),
      ebs = (), instanceStore = None, security = ()\<rparr>"

definition no_attribute :: "(rat, unit) attr \<Rightarrow> string \<Rightarrow> error + (rat, unit) attr" where
  "no_attribute v name = Inl AttributeError"

text \<open>The segment of a key before its first dot.\<close>

definition first_segment :: "string \<Rightarrow> string" where
  "first_segment k = takeWhile (\<lambda>c. c \<noteq> CHR ''.'') k"

text \<open>Every record of the RDS dictionary was built from its key, with the family derived from it.\<close>

definition rds_entry_ok :: "(string \<times> 'f RDSInstanceDetails) \<Rightarrow> bool" where
  "rds_entry_ok e \<longleftrightarrow>
     starts_with ''db.'' (fst e) \<and> extract_rds_family (fst e) = Inr (rds_family (snd e))"

text \<open>
  The loop of \<open>process_category_data\<close> over the keys of the performance table, with
  the lookup tables as the comprehensions before it have built them. The family summary
  is looked up by the derived family name, then by a name equal to it up to case (whose
  spelling the record then takes), and is the default otherwise.
\<close>

record FamilySummary =
  fs_hypervisor :: string
  fs_processorArchitecture :: string
  fs_metalAvailable :: bool
  fs_dedicatedHosts :: bool
  fs_spot :: bool
  fs_hibernation :: bool
  fs_operatingSystems :: "string list"

record 'f PerformanceSpec =
  perf_memoryGiB :: 'f
  perf_processor :: string
  perf_vCPUs :: int
  perf_cpuCores :: int
  perf_threadsPerCore :: int
  perf_accelerators :: "string option"
  perf_acceleratorMemory :: "string option"

definition default_family_summary :: FamilySummary where
  "default_family_summary =
     \<lparr>fs_hypervisor = [], fs_processorArchitecture = [], fs_metalAvailable = False,
      fs_dedicatedHosts = False, fs_spot = False, fs_hibernation = False,
      fs_operatingSystems = []\<rparr>"

definition find_family_summary ::
  "(string \<times> FamilySummary) list \<Rightarrow> string \<Rightarrow> string \<times> FamilySummary" where
  "find_family_summary family_summaries family_name =
     (case map_of family_summaries family_name of
        Some family_summary \<Rightarrow> (family_name, family_summary)
      | None \<Rightarrow>
          (case find (\<lambda>item. lower (fst item) = lower family_name) family_summaries of
             Some item \<Rightarrow> item
           | None \<Rightarrow> (family_name, default_family_summary)))"

record 'x spec_tables =
  network_table :: "string \<Rightarrow> 'x option"
  network_default :: 'x
  ebs_table :: "string \<Rightarrow> 'x option"
  ebs_default :: 'x
  instance_store_table :: "string \<Rightarrow> 'x option"
  security_table :: "string \<Rightarrow> 'x option"
  security_default :: 'x

definition instance_details ::
  "'x spec_tables \<Rightarrow> string \<Rightarrow> string \<Rightarrow> string \<times> FamilySummary \<Rightarrow> 'f PerformanceSpec \<Rightarrow>
   ('f, 'x) InstanceDetails" where
  "instance_details T category' instance_type fam perf =
     \<lparr>instanceType = instance_type,
      family = fst fam,
      category = category',
      hypervisor = fs_hypervisor (snd fam),
      processorArchitecture = fs_processorArchitecture (snd fam),
      metalAvailable = fs_metalAvailable (snd fam),
      dedicatedHosts = fs_dedicatedHosts (snd fam),
      spot = fs_spot (snd fam),
      hibernation = fs_hibernation (snd fam),
      operatingSystems = fs_operatingSystems (snd fam),
      memoryGiB = perf_memoryGiB perf,
      processor = perf_processor perf,
      vCPUs = perf_vCPUs perf,
      cpuCores = perf_cpuCores perf,
      threadsPerCore = perf_threadsPerCore perf,
      accelerators = perf_accelerators perf,
      acceleratorMemory = perf_acceleratorMemory perf,
      network = (case network_table T instance_type of None \<Rightarrow> network_default T | Some n \<Rightarrow> n),
      ebs = (case ebs_table T instance_type of None \<Rightarrow> ebs_default T | Some e \<Rightarrow> e),
      instanceStore = instance_store_table T instance_type,
      security =
        (case security_table T instance_type of None \<Rightarrow> security_default T | Some c \<Rightarrow> c)\<rparr>"

fun process_instances ::
  "'x spec_tables \<Rightarrow> string \<Rightarrow> (string \<times> FamilySummary) list \<Rightarrow>
   (string \<times> 'f PerformanceSpec) list \<Rightarrow> (string \<times> ('f, 'x) InstanceDetails) list \<Rightarrow>
   error + (string \<times> ('f, 'x) InstanceDetails) list" where
  "process_instances T category' family_summaries [] instances = Inr instances"
| "process_instances T category' family_summaries ((instance_type, perf) # rest) instances =
     (case extract_family_from_instance_type instance_type of
        Inl e \<Rightarrow> Inl e
      | Inr family_name \<Rightarrow>
          process_instances T category' family_summaries rest
            (AList.update instance_type
               (instance_details T category' instance_type
                  (find_family_summary family_summaries family_name) perf)
               instances))"

text \<open>The first row of the input whose node type is \<open>k\<close>.\<close>

definition first_row :: "string \<Rightarrow> (string \<times> string) list list \<Rightarrow> (string \<times> string) list option" where
  "first_row k raw_nodes = find (\<lambda>raw. dict_get raw ''node_type'' [] = k) raw_nodes"

text \<open>
  What the loop adds to the dictionary: a record under a key with the prefix, built from
  the first row of that node type.
\<close>

definition built_from ::
  "'f floats \<Rightarrow> (string \<times> string) list list \<Rightarrow> string \<times> 'f ElastiCacheNodeDetails \<Rightarrow> bool" where
  "built_from F raw_nodes e \<longleftrightarrow>
     starts_with ''cache.'' (fst e) \<and>
     (\<exists>raw fam. first_row (fst e) raw_nodes = Some raw \<and>
        extract_elasticache_family (fst e) = Inr fam \<and>
        snd e = elasticache_details F raw (fst e) fam)"

section \<open>Properties\<close>

subsection \<open>Footnote stripping\<close>
























subsection \<open>Header keys\<close>

lemma set_sub_runs: "set (sub_runs P r s) \<subseteq> insert r {c \<in> set s. \<not> P c}"
proof (induction P r s rule: sub_runs.induct)
  case (1 P r)
  then show ?case by simp
next
  case (2 P r c cs)
  have "set (dropWhile P cs) \<subseteq> set cs" by (auto dest: set_dropWhileD)
  with 2 show ?case by (auto split: if_splits)
qed

lemma filter_dropWhile_neg: "filter (\<lambda>c. \<not> P c \<and> Q c) (dropWhile P s) = filter (\<lambda>c. \<not> P c \<and> Q c) s"
  by (induction s) auto

lemma filter_sub_runs_us:
  "filter (\<lambda>c. c \<noteq> r) (sub_runs P r s) = filter (\<lambda>c. c \<noteq> r \<and> \<not> P c) s"
proof (induction P r s rule: sub_runs.induct)
  case (1 P r)
  then show ?case by simp
next
  case (2 P r c cs)
  have "filter (\<lambda>c. c \<noteq> r \<and> \<not> P c) (dropWhile P cs) = filter (\<lambda>c. c \<noteq> r \<and> \<not> P c) cs"
    by (induction cs) auto
  with 2 show ?case by auto
qed

lemma filter_strip_char: "filter (\<lambda>x. x \<noteq> c) (strip_char c s) = filter (\<lambda>x. x \<noteq> c) s"
proof -
  have a: "filter (\<lambda>x. x \<noteq> c) (dropWhile (\<lambda>x. x = c) t) = filter (\<lambda>x. x \<noteq> c) t" for t
    by (induction t) auto
  show ?thesis
    unfolding strip_char_def by (simp add: a flip: rev_filter)
qed

lemma upper_range: "is_upper c \<longleftrightarrow> 65 \<le> (of_char c :: nat) \<and> (of_char c :: nat) \<le> 90"
  by (simp add: is_upper_def less_eq_char_def)

lemma lower_char_code:
  "(of_char (lower_char c) :: nat) = (if is_upper c then of_char c + 32 else of_char c)"
  by (auto simp: lower_char_def upper_range)

lemma lower_char_us: "lower_char c = CHR ''_'' \<longleftrightarrow> c = CHR ''_''"
proof -
  have "lower_char c = CHR ''_'' \<longleftrightarrow> (of_char (lower_char c) :: nat) = of_char CHR ''_''"
    by (metis of_char_eq_iff)
  also have "\<dots> \<longleftrightarrow> (of_char c :: nat) = of_char CHR ''_''"
    by (auto simp: lower_char_code upper_range)
  also have "\<dots> \<longleftrightarrow> c = CHR ''_''" by (metis of_char_eq_iff)
  finally show ?thesis .
qed

lemma lower_char_not_upper: "\<not> is_upper (lower_char c)"
  using lower_char_code[of c] by (auto simp: upper_range split: if_splits)


lemma filter_lower: "filter (\<lambda>c. c \<noteq> CHR ''_'') (lower s) = lower (filter (\<lambda>c. c \<noteq> CHR ''_'') s)"
  by (induction s) (auto simp: lower_def lower_char_us)

lemma kept_chars:
  "filter (\<lambda>c. c \<noteq> CHR ''_'' \<and> \<not> (is_space c \<or> c = CHR ''-''))
     (map (\<lambda>c. if c = CHR ''/'' then CHR ''_'' else c)
        (filter (\<lambda>c. c \<noteq> CHR ''('' \<and> c \<noteq> CHR '')'' \<and> c \<noteq> CHR ''.'') s))
   = filter (\<lambda>c. \<not> key_sep c) s"
  by (induction s) (auto simp: key_sep_def)

lemma snake_letters:
  "filter (\<lambda>c. c \<noteq> CHR ''_'') (to_snake_case s) = lower (filter (\<lambda>c. \<not> key_sep c) s)"
proof -
  define t2 where "t2 = map (\<lambda>c. if c = CHR ''/'' then CHR ''_'' else c)
        (filter (\<lambda>c. c \<noteq> CHR ''('' \<and> c \<noteq> CHR '')'' \<and> c \<noteq> CHR ''.'') s)"
  define t3 where "t3 = sub_runs (\<lambda>c. is_space c \<or> c = CHR ''-'') CHR ''_'' t2"
  define t5 where "t5 = sub_runs (\<lambda>c. c = CHR ''_'') CHR ''_'' (lower t3)"
  have "to_snake_case s = strip_char CHR ''_'' t5"
    by (simp add: to_snake_case_def t2_def t3_def t5_def)
  then have "filter (\<lambda>c. c \<noteq> CHR ''_'') (to_snake_case s) = filter (\<lambda>c. c \<noteq> CHR ''_'') t5"
    by (simp add: filter_strip_char)
  also have "\<dots> = filter (\<lambda>c. c \<noteq> CHR ''_'') (lower t3)"
    unfolding t5_def filter_sub_runs_us by (rule filter_cong) auto
  also have "\<dots> = lower (filter (\<lambda>c. c \<noteq> CHR ''_'') t3)"
    by (rule filter_lower)
  also have "filter (\<lambda>c. c \<noteq> CHR ''_'') t3
      = filter (\<lambda>c. c \<noteq> CHR ''_'' \<and> \<not> (is_space c \<or> c = CHR ''-'')) t2"
    unfolding t3_def by (rule filter_sub_runs_us)
  also have "\<dots> = filter (\<lambda>c. \<not> key_sep c) s"
    unfolding t2_def by (rule kept_chars)
  finally show ?thesis .
qed

lemma is_space_range:
  "is_space c \<longleftrightarrow> (9 \<le> (of_char c :: nat) \<and> (of_char c :: nat) \<le> 13) \<or> (28 \<le> (of_char c :: nat) \<and> (of_char c :: nat) \<le> 32)"
  by (simp add: is_space_def less_eq_char_def)

lemma char_eq_code: "c = d \<longleftrightarrow> (of_char c :: nat) = of_char d"
  by (metis of_char_eq_iff)

lemma key_sep_code:
  "key_sep c \<longleftrightarrow> (of_char c :: nat) \<in> {40, 41, 46, 47, 45, 95} \<or> is_space c"
  unfolding key_sep_def
  by (simp add: char_eq_code[of c "CHR ''(''"] char_eq_code[of c "CHR '')''"] char_eq_code[of c "CHR ''.''"]
      char_eq_code[of c "CHR ''/''"] char_eq_code[of c "CHR ''-''"] char_eq_code[of c "CHR ''_''"])

lemma lower_char_props: "key_sep (lower_char c) \<longleftrightarrow> key_sep c"
  unfolding key_sep_code is_space_range lower_char_code upper_range by auto

lemma snake_chars:
  "c \<in> set (to_snake_case s) \<Longrightarrow> c = CHR ''_'' \<or> (\<not> key_sep c \<and> \<not> is_upper c)"
proof -
  assume a: "c \<in> set (to_snake_case s)"
  show ?thesis
  proof (cases "c = CHR ''_''")
    case False
    with a have "c \<in> set (filter (\<lambda>c. c \<noteq> CHR ''_'') (to_snake_case s))" by simp
    then have "c \<in> set (lower (filter (\<lambda>c. \<not> key_sep c) s))" by (simp only: snake_letters)
    then obtain d where "\<not> key_sep d" "c = lower_char d" by (auto simp: lower_def)
    then show ?thesis by (simp add: lower_char_props lower_char_not_upper)
  qed simp
qed


lemma sublist_double: "sublist ''__'' t \<longleftrightarrow> has_double t"
proof
  assume "sublist ''__'' t"
  then obtain ps ss where "t = ps @ ''__'' @ ss" by (auto simp: sublist_def)
  then show "has_double t"
  proof (induction ps arbitrary: t)
    case Nil
    then show ?case by simp
  next
    case (Cons p ps)
    then show ?case by (cases ps) auto
  qed
next
  assume "has_double t"
  then show "sublist ''__'' t"
  proof (induction t rule: has_double.induct)
    case (1 a b cs)
    then show ?case
    proof (cases "a = CHR ''_'' \<and> b = CHR ''_''")
      case True
      then have "a # b # cs = [] @ ''__'' @ cs" by simp
      then show ?thesis unfolding sublist_def by blast
    next
      case False
      with 1 have "sublist ''__'' (b # cs)" by simp
      then show ?thesis by (simp add: sublist_Cons_right)
    qed
  qed simp_all
qed

lemma sub_runs_hd: "s \<noteq> [] \<Longrightarrow> \<not> P (hd s) \<Longrightarrow> sub_runs P r s = hd s # sub_runs P r (tl s)"
  by (cases s) auto

lemma sub_runs_no_double: "\<not> has_double (sub_runs (\<lambda>c. c = CHR ''_'') CHR ''_'' s)"
proof (induction "\<lambda>c. c = CHR ''_''" "CHR ''_''" s rule: sub_runs.induct)
  case 1
  then show ?case by simp
next
  case (2 c cs)
  show ?case
  proof (cases "c = CHR ''_''")
    case True
    let ?d = "dropWhile (\<lambda>c. c = CHR ''_'') cs"
    have ih: "\<not> has_double (sub_runs (\<lambda>c. c = CHR ''_'') CHR ''_'' ?d)" using 2(1) True by simp
    show ?thesis
    proof (cases ?d)
      case Nil
      with True show ?thesis by (simp del: dropWhile_eq_Nil_conv)
    next
      case (Cons x xs)
      have "\<not> (hd ?d = CHR ''_'')" by (rule hd_dropWhile) (simp add: Cons del: dropWhile_eq_Nil_conv)
      then have "x \<noteq> CHR ''_''" by (simp add: Cons)
      with Cons ih True show ?thesis by simp
    qed
  next
    case False
    with 2(2) show ?thesis by (cases "sub_runs (\<lambda>c. c = CHR ''_'') CHR ''_'' cs") auto
  qed
qed

lemma strip_char_decomp: "\<exists>a b. dropWhile (\<lambda>x. x = c) s = strip_char c s @ b \<and> s = a @ strip_char c s @ b"
proof -
  let ?P = "\<lambda>x. x = c"
  let ?d = "dropWhile ?P s"
  let ?e = "dropWhile ?P (rev ?d)"
  have "?d = rev (rev ?d)" by (rule rev_rev_ident[symmetric])
  also have "rev ?d = takeWhile ?P (rev ?d) @ ?e" by (rule takeWhile_dropWhile_id[symmetric])
  also have "rev (takeWhile ?P (rev ?d) @ ?e) = rev ?e @ rev (takeWhile ?P (rev ?d))"
    by (rule rev_append)
  finally have d: "?d = rev ?e @ rev (takeWhile ?P (rev ?d))" .
  have "s = takeWhile ?P s @ ?d" by simp
  with d have "s = takeWhile ?P s @ rev ?e @ rev (takeWhile ?P (rev ?d))" by simp
  with d show ?thesis unfolding strip_char_def by blast
qed

lemma strip_char_sublist: "sublist (strip_char c s) s"
  using strip_char_decomp[of c s] unfolding sublist_def by blast

lemma snake_no_double: "\<not> sublist ''__'' (to_snake_case s)"
proof
  assume a: "sublist ''__'' (to_snake_case s)"
  have "sublist (to_snake_case s) (sub_runs (\<lambda>c. c = CHR ''_'') CHR ''_''
      (lower (sub_runs (\<lambda>c. is_space c \<or> c = CHR ''-'') CHR ''_''
         (map (\<lambda>c. if c = CHR ''/'' then CHR ''_'' else c)
           (filter (\<lambda>c. c \<noteq> CHR ''('' \<and> c \<noteq> CHR '')'' \<and> c \<noteq> CHR ''.'') s)))))"
    unfolding to_snake_case_def Let_def by (rule strip_char_sublist)
  with a have "sublist ''__'' (sub_runs (\<lambda>c. c = CHR ''_'') CHR ''_''
      (lower (sub_runs (\<lambda>c. is_space c \<or> c = CHR ''-'') CHR ''_''
         (map (\<lambda>c. if c = CHR ''/'' then CHR ''_'' else c)
           (filter (\<lambda>c. c \<noteq> CHR ''('' \<and> c \<noteq> CHR '')'' \<and> c \<noteq> CHR ''.'') s)))))"
    by (rule sublist_order.order_trans)
  then show False by (simp add: sublist_double sub_runs_no_double)
qed

lemma strip_char_ends:
  "strip_char c s = [] \<or> (hd (strip_char c s) \<noteq> c \<and> last (strip_char c s) \<noteq> c)"
proof (cases "strip_char c s = []")
  case False
  let ?P = "\<lambda>x. x = c"
  let ?d = "dropWhile ?P s"
  let ?e = "dropWhile ?P (rev ?d)"
  have s: "strip_char c s = rev ?e" by (simp add: strip_char_def)
  with False have ene: "?e \<noteq> []" by simp
  have "\<not> ?P (hd ?e)" by (rule hd_dropWhile) (rule ene)
  then have l: "last (strip_char c s) \<noteq> c" using ene by (simp add: s last_rev)
  obtain b where b: "?d = strip_char c s @ b" using strip_char_decomp[of c s] by blast
  with False have dne: "?d \<noteq> []" by auto
  have "\<not> ?P (hd ?d)" by (rule hd_dropWhile) (rule dne)
  moreover have "hd ?d = hd (strip_char c s)" using b False by (metis hd_append2)
  ultimately show ?thesis using l by simp
qed simp


lemma dropWhile_weaker: "(\<And>c. Q c \<Longrightarrow> P c) \<Longrightarrow> dropWhile P (dropWhile Q s) = dropWhile P s"
  by (induction s) auto

lemma dropWhile_sub_runs:
  "dropWhile (\<lambda>c. c = r) (sub_runs Q r y) = sub_runs Q r (dropWhile (\<lambda>c. Q c \<or> c = r) y)"
proof (induction Q r y rule: sub_runs.induct)
  case (1 P r)
  then show ?case by simp
next
  case (2 Q r c cs)
  show ?case
  proof (cases "Q c")
    case True
    have "dropWhile (\<lambda>c. Q c \<or> c = r) (dropWhile Q cs) = dropWhile (\<lambda>c. Q c \<or> c = r) cs"
      by (rule dropWhile_weaker) simp
    with 2(1)[OF True] True show ?thesis by simp
  next
    case False
    with 2(2) show ?thesis by auto
  qed
qed

lemma sub_runs_fuse:
  assumes "\<And>c. P c = (Q c \<or> c = r)"
  shows "sub_runs (\<lambda>c. c = r) r (sub_runs Q r s) = sub_runs P r s"
  using assms
proof (induction P r s rule: sub_runs.induct)
  case (1 P r)
  then show ?case by simp
next
  case (2 P r c cs)
  have P: "P = (\<lambda>c. Q c \<or> c = r)" using 2(3) by auto
  have d: "dropWhile P (dropWhile Q cs) = dropWhile P cs"
    by (rule dropWhile_weaker) (simp add: P)
  have dsr: "dropWhile (\<lambda>c. c = r) (sub_runs Q r y) = sub_runs Q r (dropWhile P y)" for y
    unfolding P by (rule dropWhile_sub_runs)
  show ?case
  proof (cases "P c")
    case True
    have ih: "sub_runs (\<lambda>c. c = r) r (sub_runs Q r (dropWhile P cs)) = sub_runs P r (dropWhile P cs)"
      by (rule 2(1)[OF True 2(3)])
    have "sub_runs (\<lambda>c. c = r) r (sub_runs Q r (c # cs))
        = r # sub_runs (\<lambda>c. c = r) r (sub_runs Q r (dropWhile P cs))"
    proof (cases "Q c")
      case q: True
      then show ?thesis by (simp add: dsr d)
    next
      case q: False
      with True have "c = r" by (simp add: P)
      with q show ?thesis by (simp add: dsr)
    qed
    with ih True show ?thesis by simp
  next
    case False
    then have "\<not> Q c" "c \<noteq> r" by (auto simp: P)
    with False 2(2)[OF False 2(3)] show ?thesis by simp
  qed
qed

lemma sub_runs_map:
  assumes "\<And>c. P (f c) = P' c" "\<And>c. \<not> P' c \<Longrightarrow> f c = c"
  shows "sub_runs P r (map f s) = sub_runs P' r s"
  using assms
proof (induction P' r s rule: sub_runs.induct)
  case (1 P' r)
  then show ?case by simp
next
  case (2 P' r c cs)
  have "P \<circ> f = P'" using 2(3) by (auto simp: comp_def)
  then have d: "dropWhile P (map f cs) = map f (dropWhile P' cs)"
    by (simp add: dropWhile_map)
  show ?case
  proof (cases "P' c")
    case True
    with 2(1)[OF True 2(3,4)] 2(3) d show ?thesis by simp
  next
    case False
    then have fc: "f c = c" by (rule 2(4))
    have "\<not> P (f c)" using False 2(3) by simp
    then have "\<not> P c" by (simp add: fc)
    with 2(2)[OF False 2(3,4)] False fc show ?thesis by simp
  qed
qed

lemma map_sub_runs:
  assumes "\<And>c. P (f c) = P c" "f r = r"
  shows "map f (sub_runs P r s) = sub_runs P r (map f s)"
  using assms
proof (induction P r s rule: sub_runs.induct)
  case (1 P r)
  then show ?case by simp
next
  case (2 P r c cs)
  have "P \<circ> f = P" using 2(3) by (auto simp: comp_def)
  then have d: "dropWhile P (map f cs) = map f (dropWhile P cs)"
    by (simp add: dropWhile_map)
  show ?case
  proof (cases "P c")
    case True
    with 2(1)[OF True 2(3,4)] 2(3,4) d show ?thesis by simp
  next
    case False
    with 2(2)[OF False 2(3,4)] 2(3,4) show ?thesis by simp
  qed
qed


lemma lower_char_fix:
  assumes "\<not> is_upper d" "\<not> is_lower d"
  shows "lower_char c = d \<longleftrightarrow> c = d"
proof -
  define m n where "m = (of_char c :: nat)" and "n = (of_char d :: nat)"
  have n: "\<not> (65 \<le> n \<and> n \<le> 90)" "\<not> (97 \<le> n \<and> n \<le> 122)"
    using assms unfolding upper_range is_lower_def less_eq_char_def n_def by simp_all
  have "(of_char (lower_char c) :: nat) = (if 65 \<le> m \<and> m \<le> 90 then m + 32 else m)"
    unfolding lower_char_code upper_range m_def by simp
  then have "(of_char (lower_char c) :: nat) = n \<longleftrightarrow> m = n"
    using n by (cases "65 \<le> m \<and> m \<le> 90") auto
  then show ?thesis unfolding m_def n_def by simp
qed

lemma lower_char_space: "is_space (lower_char c) = is_space c"
  unfolding is_space_range lower_char_code upper_range
  by (cases "65 \<le> (of_char c :: nat) \<and> (of_char c :: nat) \<le> 90") simp_all

lemma lower_char_word_sep: "word_sep (lower_char c) \<longleftrightarrow> word_sep c"
  unfolding word_sep_def
  by (simp add: lower_char_space lower_char_fix is_upper_def is_lower_def)

lemma snake_fused:
  "to_snake_case s =
     strip_char CHR ''_'' (sub_runs word_sep CHR ''_''
        (lower (filter (\<lambda>c. c \<noteq> CHR ''('' \<and> c \<noteq> CHR '')'' \<and> c \<noteq> CHR ''.'') s)))"
proof -
  define t1 where "t1 = filter (\<lambda>c. c \<noteq> CHR ''('' \<and> c \<noteq> CHR '')'' \<and> c \<noteq> CHR ''.'') s"
  let ?f = "\<lambda>c. if c = CHR ''/'' then CHR ''_'' else c"
  let ?Q = "\<lambda>c. is_space c \<or> c = CHR ''-''"
  let ?QR = "\<lambda>c. ?Q c \<or> c = CHR ''_''"
  have l: "lower (sub_runs ?Q CHR ''_'' (map ?f t1)) = sub_runs ?Q CHR ''_'' (lower (map ?f t1))"
    unfolding lower_def
    by (rule map_sub_runs) (simp_all add: lower_char_space lower_char_fix is_upper_def is_lower_def)
  have "lower_char (?f c) = ?f (lower_char c)" for c
    by (simp add: lower_char_fix is_upper_def is_lower_def)
  then have m: "lower (map ?f t1) = map ?f (lower t1)"
    unfolding lower_def by (induction t1) simp_all
  have "to_snake_case s = strip_char CHR ''_'' (sub_runs (\<lambda>c. c = CHR ''_'') CHR ''_''
          (lower (sub_runs ?Q CHR ''_'' (map ?f t1))))"
    by (simp add: to_snake_case_def t1_def)
  also have "sub_runs (\<lambda>c. c = CHR ''_'') CHR ''_'' (lower (sub_runs ?Q CHR ''_'' (map ?f t1)))
      = sub_runs ?QR CHR ''_'' (map ?f (lower t1))"
    unfolding l m by (rule sub_runs_fuse) simp
  also have "\<dots> = sub_runs word_sep CHR ''_'' (lower t1)"
    by (rule sub_runs_map) (auto simp: word_sep_def)
  finally show ?thesis by (simp add: t1_def)
qed

text \<open>
  Claim C7, as the code has it. \<open>to_snake_case\<close> (normalizeKey) deletes every \<open>.\<close>,
  \<open>(\<close> and \<open>)\<close> (it does not put an underscore in their place), lowercases, replaces
  every maximal run of slashes, hyphens, whitespace and underscores by one underscore,
  and strips the underscores at both ends. So the result has no two underscores in a
  row, neither begins nor ends with one, and holds besides underscores only characters
  that are neither separators nor upper-case letters.
\<close>

theorem C7_normalize_key:
  "to_snake_case s =
     strip_char CHR ''_'' (sub_runs word_sep CHR ''_''
        (lower (filter (\<lambda>c. c \<noteq> CHR ''('' \<and> c \<noteq> CHR '')'' \<and> c \<noteq> CHR ''.'') s))) \<and>
   \<not> sublist ''__'' (to_snake_case s) \<and>
   (to_snake_case s = [] \<or>
      (hd (to_snake_case s) \<noteq> CHR ''_'' \<and> last (to_snake_case s) \<noteq> CHR ''_'')) \<and>
   (\<forall>c \<in> set (to_snake_case s). c = CHR ''_'' \<or> (\<not> key_sep c \<and> \<not> is_upper c))"
proof -
  have "to_snake_case s = [] \<or>
      (hd (to_snake_case s) \<noteq> CHR ''_'' \<and> last (to_snake_case s) \<noteq> CHR ''_'')"
    unfolding to_snake_case_def Let_def by (rule strip_char_ends)
  then show ?thesis
    using snake_fused[of s] snake_no_double[of s] snake_chars[of _ s] by blast
qed

theorem C7_normalize_key_witness:
  "to_snake_case ''Baseline / Burst bandwidth (Gbps)'' = ''baseline_burst_bandwidth_gbps'' \<and>
   CHR ''b'' \<in> set (to_snake_case ''Baseline / Burst bandwidth (Gbps)'') \<and>
   \<not> key_sep CHR ''b'' \<and> \<not> is_upper CHR ''b''"
proof -
  have r: "strip_char CHR ''_'' (sub_runs word_sep CHR ''_''
        (lower (filter (\<lambda>c. c \<noteq> CHR ''('' \<and> c \<noteq> CHR '')'' \<and> c \<noteq> CHR ''.'')
           ''Baseline / Burst bandwidth (Gbps)''))) = ''baseline_burst_bandwidth_gbps''"
    by code_simp
  have e: "to_snake_case ''Baseline / Burst bandwidth (Gbps)'' = ''baseline_burst_bandwidth_gbps''"
    using C7_normalize_key[of "''Baseline / Burst bandwidth (Gbps)''"] r by (simp only:)
  have m: "CHR ''b'' \<in> set (to_snake_case ''Baseline / Burst bandwidth (Gbps)'')"
    by (simp add: e)
  from C7_normalize_key[of "''Baseline / Burst bandwidth (Gbps)''"] m
  have "CHR ''b'' = CHR ''_'' \<or> (\<not> key_sep CHR ''b'' \<and> \<not> is_upper CHR ''b'')" by blast
  with e m show ?thesis by simp
qed

text \<open>
  Claim C7 as stated fails: the dot of \<open>a.b\<close> is deleted, not replaced by an underscore.
\<close>

theorem C7_dot_not_underscore:
  "to_snake_case ''a.b'' = ''ab'' \<and> to_snake_case ''a.b'' \<noteq> ''a_b''"
  by code_simp

subsection \<open>Bandwidth coercion\<close>

lemma split_no_sep: "c \<notin> set s \<Longrightarrow> split c s = [s]"
  by (induction s) auto

lemma split_two_has_sep: "split c s = [a, b] \<Longrightarrow> c \<in> set s"
  using split_no_sep[of c s] by auto

lemma bw_numeric:
  "parse_bandwidth F (PFloat x) = Inr (Bandwidth \<lparr>baseline = Some x, burst = None\<rparr>)"
  "float_of_int F n = Some y \<Longrightarrow> parse_bandwidth F (PInt n) = Inr (Bandwidth \<lparr>baseline = Some y, burst = None\<rparr>)"
  by (simp_all add: parse_bandwidth_def)

lemma bw_two_part:
  assumes "\<not> contains ''Gigabit'' s" "split CHR ''/'' s = [a, b]"
    "float_of_str F (strip a) = Some x" "float_of_str F (strip b) = Some y"
  shows "parse_bandwidth F (PStr s) = Inr (Bandwidth \<lparr>baseline = Some x, burst = Some y\<rparr>)"
  using assms split_two_has_sep[OF assms(2)] by (simp add: parse_bandwidth_def)

lemma bw_keyword:
  "contains ''Gigabit'' s \<Longrightarrow> parse_bandwidth F (PStr s) = Inr (Descriptive s)"
  by (simp add: parse_bandwidth_def)

lemma bw_parse_failure:
  assumes "split CHR ''/'' s = [a, b]" "float_of_str F (strip a) = None \<or> float_of_str F (strip b) = None"
  shows "parse_bandwidth F (PStr s) = Inr (Descriptive s)"
  using assms by (auto simp: parse_bandwidth_def split: option.splits)

lemma bw_example:
  assumes "float_of_str F ''0.75'' = Some u" "float_of_str F ''10.0'' = Some v"
  shows "parse_bandwidth F (PStr ''0.75 / 10.0'') = Inr (Bandwidth \<lparr>baseline = Some u, burst = Some v\<rparr>)"
proof (rule bw_two_part)
  show "\<not> contains ''Gigabit'' ''0.75 / 10.0''" by (simp add: starts_with_def)
  show "split CHR ''/'' ''0.75 / 10.0'' = [''0.75 '', '' 10.0'']" by simp
  show "float_of_str F (strip ''0.75 '') = Some u" using assms(1) by (simp add: strip_def is_space_def)
  show "float_of_str F (strip '' 10.0'') = Some v" using assms(2) by (simp add: strip_def is_space_def)
qed

text \<open>
  Claim C5. \<open>parse_bandwidth\<close> (coerceBandwidth) maps a float \<open>x\<close> to a specification
  with baseline \<open>x\<close> and no burst, and an integer \<open>n\<close> to one with baseline \<open>float(n)\<close>
  and no burst; a string without the keyword \<open>Gigabit\<close> whose split on the slash has
  two parts that both parse as floats becomes the specification of the two floats, so
  \<open>0.75 / 10.0\<close> gives baseline 0.75 and burst 10.0; a string that contains the keyword,
  or one of whose two parts does not parse, is returned as the same string, so
  \<open>100 Gigabit\<close> comes back verbatim.
\<close>

theorem C5_coerce_bandwidth:
  "parse_bandwidth F (PFloat x) = Inr (Bandwidth \<lparr>baseline = Some x, burst = None\<rparr>) \<and>
   (float_of_int F n = Some y \<longrightarrow>
      parse_bandwidth F (PInt n) = Inr (Bandwidth \<lparr>baseline = Some y, burst = None\<rparr>)) \<and>
   (\<not> contains ''Gigabit'' s \<and> split CHR ''/'' s = [a, b] \<and>
    float_of_str F (strip a) = Some u \<and> float_of_str F (strip b) = Some v \<longrightarrow>
      parse_bandwidth F (PStr s) = Inr (Bandwidth \<lparr>baseline = Some u, burst = Some v\<rparr>)) \<and>
   (contains ''Gigabit'' s \<longrightarrow> parse_bandwidth F (PStr s) = Inr (Descriptive s)) \<and>
   (split CHR ''/'' s = [a, b] \<and>
    (float_of_str F (strip a) = None \<or> float_of_str F (strip b) = None) \<longrightarrow>
      parse_bandwidth F (PStr s) = Inr (Descriptive s)) \<and>
   (float_of_str F ''0.75'' = Some u \<and> float_of_str F ''10.0'' = Some v \<longrightarrow>
      parse_bandwidth F (PStr ''0.75 / 10.0'') =
        Inr (Bandwidth \<lparr>baseline = Some u, burst = Some v\<rparr>)) \<and>
   parse_bandwidth F (PStr ''100 Gigabit'') = Inr (Descriptive ''100 Gigabit'')"
proof -
  have "contains ''Gigabit'' ''100 Gigabit''" by (simp add: starts_with_def)
  then have "parse_bandwidth F (PStr ''100 Gigabit'') = Inr (Descriptive ''100 Gigabit'')"
    by (rule bw_keyword)
  then show ?thesis
    using bw_numeric[of F] bw_two_part[of s a b F] bw_keyword[of s F] bw_parse_failure[of s a b F]
      bw_example[of F]
    by blast
qed

theorem C5_coerce_bandwidth_witness:
  "parse_bandwidth decimal_floats (PInt 25) = Inr (Bandwidth \<lparr>baseline = Some 25, burst = None\<rparr>) \<and>
   parse_bandwidth decimal_floats (PStr ''0.75 / 10.0'') =
     Inr (Bandwidth \<lparr>baseline = Some (3 / 4), burst = Some 10\<rparr>) \<and>
   parse_bandwidth decimal_floats (PStr ''2.5 / 12.5'') =
     Inr (Bandwidth \<lparr>baseline = Some (5 / 2), burst = Some (25 / 2)\<rparr>) \<and>
   parse_bandwidth decimal_floats (PStr ''25 Gigabit'') = Inr (Descriptive ''25 Gigabit'') \<and>
   parse_bandwidth decimal_floats (PStr ''Up to / 10.0'') = Inr (Descriptive ''Up to / 10.0'')"
proof -
  let ?F = decimal_floats
  have i: "float_of_int ?F 25 = Some 25" by (simp add: decimal_floats_def)
  have e: "float_of_str ?F ''0.75'' = Some (3 / 4) \<and> float_of_str ?F ''10.0'' = Some 10"
    unfolding decimal_floats_def by (simp add: decimal_of_str_def) code_simp
  have t: "\<not> contains ''Gigabit'' ''2.5 / 12.5'' \<and> split CHR ''/'' ''2.5 / 12.5'' = [''2.5 '', '' 12.5''] \<and>
      float_of_str ?F (strip ''2.5 '') = Some (5 / 2) \<and> float_of_str ?F (strip '' 12.5'') = Some (25 / 2)"
    unfolding decimal_floats_def by (simp add: decimal_of_str_def) code_simp
  have k: "contains ''Gigabit'' ''25 Gigabit''" by (simp add: starts_with_def)
  have f: "split CHR ''/'' ''Up to / 10.0'' = [''Up to '', '' 10.0''] \<and>
      (float_of_str ?F (strip ''Up to '') = None \<or> float_of_str ?F (strip '' 10.0'') = None)"
    unfolding decimal_floats_def by (simp add: decimal_of_str_def) code_simp
  from C5_coerce_bandwidth[of ?F _ 25 25 "''2.5 / 12.5''" "''2.5 ''" "'' 12.5''" "5 / 2" "25 / 2"] i t
  have 1: "parse_bandwidth ?F (PInt 25) = Inr (Bandwidth \<lparr>baseline = Some 25, burst = None\<rparr>)"
    and 2: "parse_bandwidth ?F (PStr ''2.5 / 12.5'') =
     Inr (Bandwidth \<lparr>baseline = Some (5 / 2), burst = Some (25 / 2)\<rparr>)" by blast+
  from C5_coerce_bandwidth[of ?F _ _ _ "''25 Gigabit''" _ _ "3 / 4" 10] e k
  have 3: "parse_bandwidth ?F (PStr ''0.75 / 10.0'') =
     Inr (Bandwidth \<lparr>baseline = Some (3 / 4), burst = Some 10\<rparr>)"
    and 4: "parse_bandwidth ?F (PStr ''25 Gigabit'') = Inr (Descriptive ''25 Gigabit'')" by blast+
  from C5_coerce_bandwidth[of ?F _ _ _ "''Up to / 10.0''" "''Up to ''" "'' 10.0''"] f
  have 5: "parse_bandwidth ?F (PStr ''Up to / 10.0'') = Inr (Descriptive ''Up to / 10.0'')" by blast
  from 1 2 3 4 5 show ?thesis by simp
qed

subsection \<open>Volume limit coercion\<close>


















lemma hd_not_P_takeWhile: "\<not> P c \<Longrightarrow> takeWhile P (xs @ c # ys) = takeWhile P xs"
  by (induction xs) auto




























subsection \<open>Row filter of the table extractor\<close>

lemma fill_row_keys:
  "fst ` set (fill_row F headers i cells row_data) =
     fst ` set row_data \<union> cell_key headers ` {i ..< i + length cells}"
proof (induction cells arbitrary: i row_data)
  case Nil
  then show ?case by simp
next
  case (Cons cell cells)
  have "{i ..< i + length (cell # cells)} = insert i {Suc i ..< Suc i + length cells}"
    by auto
  then show ?case
    by (simp add: Cons.IH dom_update cell_key_def del: image_insert) (auto simp: cell_key_def)
qed

lemma fill_row_distinct:
  "distinct (map fst row_data) \<Longrightarrow> distinct (map fst (fill_row F headers i cells row_data))"
  by (induction cells arbitrary: i row_data) (simp_all add: distinct_update)

lemma fill_row_length:
  "length (fill_row F headers 0 cells []) = card (cell_key headers ` {0 ..< length cells})"
proof -
  let ?r = "fill_row F headers 0 cells []"
  have d: "distinct (map fst ?r)" by (rule fill_row_distinct) simp
  have "card (set (map fst ?r)) = length (map fst ?r)" using d by (rule distinct_card)
  moreover have "set (map fst ?r) = cell_key headers ` {0 ..< length cells}"
    using fill_row_keys[of F headers 0 cells "[]"] by simp
  ultimately show ?thesis by simp
qed

lemma parse_row_kept:
  "parse_row F headers cells =
     (if 2 \<le> card (cell_key headers ` {0 ..< length cells})
      then [fill_row F headers 0 cells []] else [])"
proof (cases "cells = []")
  case True
  then show ?thesis by (simp add: parse_row_def)
next
  case False
  have "length (fill_row F headers 0 cells []) > 1 \<longleftrightarrow> 2 \<le> card (cell_key headers ` {0 ..< length cells})"
    unfolding fill_row_length by auto
  moreover have "length (fill_row F headers 0 cells []) > 1 \<Longrightarrow> fill_row F headers 0 cells [] \<noteq> []"
    by auto
  ultimately show ?thesis using False by (auto simp: parse_row_def Let_def)
qed

lemma parse_row_short: "length cells < 2 \<Longrightarrow> parse_row F headers cells = []"
proof -
  assume a: "length cells < 2"
  have "card (cell_key headers ` {0 ..< length cells}) \<le> card {0 ..< length cells}"
    by (rule card_image_le) simp
  with a have "card (cell_key headers ` {0 ..< length cells}) < 2" by simp
  then show ?thesis by (simp add: parse_row_kept)
qed

lemma parse_table_rows:
  "parse_table F t =
     map (\<lambda>cells. fill_row F (table_headers t) 0 cells [])
       (filter (\<lambda>cells. 2 \<le> card (cell_key (table_headers t) ` {0 ..< length cells})) (trs t))"
proof -
  have "concat (map (parse_row F hs) rows) =
      map (\<lambda>cells. fill_row F hs 0 cells [])
        (filter (\<lambda>cells. 2 \<le> card (cell_key hs ` {0 ..< length cells})) rows)" for hs rows
    by (induction rows) (simp_all add: parse_row_kept)
  then show ?thesis by (simp add: parse_table_def)
qed

text \<open>
  Claim C8, as the code has it. A row of the table gives no RawRow exactly when its
  cells are stored under fewer than two distinct keys (the header of the cell's column,
  or \<open>column_i\<close> beyond the headers); so a row with no cell or with one cell is always
  discarded, whatever the cell holds. The rows \<open>parse_table\<close> returns are those of the
  remaining \<^verbatim>\<open>tr\<close> elements, in their order.
\<close>

theorem C8_row_discarded:
  "(parse_row F headers cells = [] \<longleftrightarrow> card (cell_key headers ` {0 ..< length cells}) < 2) \<and>
   (length cells < 2 \<longrightarrow> parse_row F headers cells = []) \<and>
   parse_table F t =
     map (\<lambda>cells. fill_row F (table_headers t) 0 cells [])
       (filter (\<lambda>cells. 2 \<le> card (cell_key (table_headers t) ` {0 ..< length cells})) (trs t))"
  using parse_row_kept[of F headers cells] parse_row_short[of cells F headers]
    parse_table_rows[of F t]
  by (simp add: not_le)

theorem C8_row_discarded_witness:
  "length [''m5.large''] < 2 \<and>
   parse_row decimal_floats [''instance_type'', ''hypervisor''] [''m5.large''] = [] \<and>
   parse_table decimal_floats \<lparr>thead = Some [''Instance type''], trs = [[''m5.large'']]\<rparr> = []"
proof -
  have l: "length [''m5.large''] < 2" by simp
  have c: "\<not> 2 \<le> card (cell_key h ` {0 ..< length [''m5.large'']})" for h
    by simp
  from C8_row_discarded[of decimal_floats "[''instance_type'', ''hypervisor'']" "[''m5.large'']"
      "\<lparr>thead = Some [''Instance type''], trs = [[''m5.large'']]\<rparr>"] l c
  show ?thesis by simp
qed

text \<open>
  Claim C8 as stated fails: a row with exactly one populated cell and one empty cell is
  kept, under headers and without them.
\<close>

theorem C8_one_populated_cell_kept:
  "parse_table decimal_floats
     \<lparr>thead = Some [''Instance type'', ''Hypervisor''], trs = [[''m5.large'', []]]\<rparr> =
     [[(''instance_type'', PStr ''m5.large''), (''hypervisor'', PStr [])]] \<and>
   parse_table decimal_floats \<lparr>thead = None, trs = [[''x'', []]]\<rparr> =
     [[(''column_0'', PStr ''x''), (''column_1'', PStr [])]]"
  by code_simp

subsection \<open>Manifests\<close>

lemma sorted_keys:
  assumes "distinct (map fst d)"
  shows "sorted (sort (map fst d)) \<and> distinct (sort (map fst d)) \<and> set (sort (map fst d)) = fst ` set d"
  using assms by simp

lemma ec2_categories_list:
  "map fst EC2_CATEGORIES =
     [''general_purpose'', ''compute_optimized'', ''memory_optimized'', ''storage_optimized'',
      ''accelerated_computing'', ''hpc'']"
  by (simp add: EC2_CATEGORIES_def)

text \<open>
  Claim C2, as the code has it. In every info manifest (EC2, RDS, Elasticache) the family
  names and the entity keys are sorted ascending and free of duplicates, and are exactly
  the keys of the two dictionaries; the categories are the fixed list of the domain in
  the order of its declaration, free of duplicates but not sorted.
\<close>

theorem C2_manifest_sets:
  assumes "distinct (map fst families)" and "distinct (map fst entities)"
  shows
    "(\<forall>m \<in> {write_ec2_info_file families entities, write_rds_info_file families entities,
             write_elasticache_info_file families entities}.
        sorted (info_families m) \<and> distinct (info_families m) \<and>
        set (info_families m) = fst ` set families \<and>
        sorted (info_instances m) \<and> distinct (info_instances m) \<and>
        set (info_instances m) = fst ` set entities \<and>
        distinct (info_categories m)) \<and>
     info_categories (write_ec2_info_file families entities) =
       [''general_purpose'', ''compute_optimized'', ''memory_optimized'', ''storage_optimized'',
        ''accelerated_computing'', ''hpc''] \<and>
     info_categories (write_rds_info_file families entities) =
       [''general_purpose'', ''memory_optimized'', ''compute_optimized'',
        ''burstable_performance''] \<and>
     info_categories (write_elasticache_info_file families entities) =
       [''general_purpose'', ''memory_optimized'', ''network_optimized'',
        ''burstable_performance'']"
  using assms
  by (simp add: write_ec2_info_file_def write_rds_info_file_def write_elasticache_info_file_def
      ec2_categories_list RDS_CATEGORIES_def ELASTICACHE_CATEGORIES_def)

theorem C2_manifest_sets_witness:
  "distinct (map fst [(''M5'', ()), (''C5'', ())]) \<and>
   distinct (map fst [(''m5.large'', ()), (''c5.large'', ()), (''c5.2xlarge'', ())]) \<and>
   info_families (write_ec2_info_file [(''M5'', ()), (''C5'', ())]
     [(''m5.large'', ()), (''c5.large'', ()), (''c5.2xlarge'', ())]) = [''C5'', ''M5''] \<and>
   sorted (info_instances (write_rds_info_file [(''M5'', ()), (''C5'', ())]
     [(''m5.large'', ()), (''c5.large'', ()), (''c5.2xlarge'', ())])) \<and>
   set (info_instances (write_elasticache_info_file [(''M5'', ()), (''C5'', ())]
     [(''m5.large'', ()), (''c5.large'', ()), (''c5.2xlarge'', ())])) =
     {''m5.large'', ''c5.large'', ''c5.2xlarge''}"
proof -
  let ?f = "[(''M5'', ()), (''C5'', ())]"
  let ?e = "[(''m5.large'', ()), (''c5.large'', ()), (''c5.2xlarge'', ())]"
  have d: "distinct (map fst ?f)" "distinct (map fst ?e)" by simp_all
  have f: "info_families (write_ec2_info_file ?f ?e) = [''C5'', ''M5'']"
    by (simp add: write_ec2_info_file_def)
  from C2_manifest_sets[OF d] have
    "sorted (info_instances (write_rds_info_file ?f ?e))"
    "set (info_instances (write_elasticache_info_file ?f ?e)) = fst ` set ?e"
    by simp_all
  with d f show ?thesis by simp
qed

text \<open>Claim C2 as stated fails: the categories of no manifest are sorted.\<close>

theorem C2_categories_not_sorted:
  "\<not> sorted (info_categories
        (write_ec2_info_file ([] :: (string \<times> unit) list) ([] :: (string \<times> unit) list))) \<and>
   \<not> sorted (info_categories
        (write_rds_info_file ([] :: (string \<times> unit) list) ([] :: (string \<times> unit) list))) \<and>
   \<not> sorted (info_categories
        (write_elasticache_info_file ([] :: (string \<times> unit) list) ([] :: (string \<times> unit) list)))"
  by (simp add: write_ec2_info_file_def write_rds_info_file_def write_elasticache_info_file_def
      ec2_categories_list RDS_CATEGORIES_def ELASTICACHE_CATEGORIES_def)

subsection \<open>Schema emitter\<close>

lemma getattr_missing:
  "getattr_details d ''familySummary'' = Inl AttributeError"
  "getattr_details d ''performance'' = Inl AttributeError"
  by (simp_all add: getattr_details_def)

lemma attr_path_missing:
  "attr_path get2 ''familySummary'' b d = Inl AttributeError"
  "attr_path get2 ''performance'' b d = Inl AttributeError"
  by (simp_all add: attr_path_def getattr_missing)

lemma collect_all_fail:
  "(\<And>d. extractor d = Inl AttributeError) \<Longrightarrow> collect_values ds extractor values = Inr values"
  by (induction ds) simp_all

lemma extract_stale:
  "extract_unique_values insts (attr_path get2 ''familySummary'' b) = Inr {}"
  "extract_unique_values insts (attr_path get2 ''performance'' b) = Inr {}"
  by (simp_all add: extract_unique_values_def collect_all_fail attr_path_missing)

lemma enumerable_sets_empty: "enumerable_sets get2 insts = Inr ({}, {}, {}, {}, {})"
  by (simp add: enumerable_sets_def extract_stale)

lemma in_concat_sublist: "x \<in> set xs \<Longrightarrow> sublist x (concat xs)"
proof -
  assume "x \<in> set xs"
  then obtain a b where "xs = a @ x # b" by (meson split_list)
  then have "concat xs = concat a @ x @ concat b" by simp
  then show ?thesis unfolding sublist_def by blast
qed

lemma document_parts:
  "generate_typescript_types get2 e f r rf n nf =
     Inr (concat (ts_parts (set (map fst e)) (set (map fst f)) (set (map fst EC2_CATEGORIES))
        {} {} {} {} {} (set (map fst r)) (set (map fst rf)) (set RDS_CATEGORIES)
        (set (map fst n)) (set (map fst nf)) (set ELASTICACHE_CATEGORIES)))"
  by (simp add: generate_typescript_types_def enumerable_sets_empty)

lemma open_declaration:
  "generate_union_type name {} = ''export type '' @ name @ '' = string;'' @ [newline]"
  by (simp add: generate_union_type_def)

lemma open_parts:
  "generate_union_type name {} \<in> set (ts_parts a b c {} {} {} {} {} i j k l m n)"
  if "name \<in> {''EC2Hypervisor'', ''EC2ProcessorArchitecture'', ''EC2Processor'',
               ''EC2OperatingSystem'', ''EC2Accelerator''}"
  using that by (auto simp: ts_parts_def)

lemma document_open:
  assumes "name \<in> {''EC2Hypervisor'', ''EC2ProcessorArchitecture'', ''EC2Processor'',
               ''EC2OperatingSystem'', ''EC2Accelerator''}"
  shows "\<exists>doc. generate_typescript_types get2 e f r rf n nf = Inr doc \<and>
           sublist (''export type '' @ name @ '' = string;'' @ [newline]) doc"
  unfolding document_parts
  using in_concat_sublist[OF open_parts[OF assms]] open_declaration[of name] by auto

text \<open>
  Claim C1 on the code. The extractors of the five enumerable fields read
  \<^verbatim>\<open>d.familySummary\<close> and \<^verbatim>\<open>d.performance\<close>, which \<open>InstanceDetails\<close> does not have: the
  \<^verbatim>\<open>AttributeError\<close> is swallowed for every instance, every one of the five sets is
  empty for every dataset, and the document declares each of the five fields as the open
  type \<open>string\<close>. So it is for a dataset whose one instance has the hypervisor
  \<open>Nitro v2\<close>.
\<close>

theorem C1_enumerable_fields_open:
  "enumerable_sets get2 ec2_instances = Inr ({}, {}, {}, {}, {}) \<and>
   (\<exists>doc. generate_typescript_types get2 ec2_instances ec2_families rds_instances rds_families
             elasticache_nodes elasticache_families = Inr doc \<and>
      sublist (''export type EC2Hypervisor = string;'' @ [newline]) doc \<and>
      sublist (''export type EC2ProcessorArchitecture = string;'' @ [newline]) doc \<and>
      sublist (''export type EC2Processor = string;'' @ [newline]) doc \<and>
      sublist (''export type EC2OperatingSystem = string;'' @ [newline]) doc \<and>
      sublist (''export type EC2Accelerator = string;'' @ [newline]) doc) \<and>
   hypervisor example_instance = ''Nitro v2'' \<and>
   enumerable_sets no_attribute [(''m5.large'', example_instance)] = Inr ({}, {}, {}, {}, {})"
proof -
  let ?names = "{''EC2Hypervisor'', ''EC2ProcessorArchitecture'', ''EC2Processor'',
               ''EC2OperatingSystem'', ''EC2Accelerator''}"
  obtain doc where d: "generate_typescript_types get2 ec2_instances ec2_families rds_instances
      rds_families elasticache_nodes elasticache_families = Inr doc"
    using document_parts by blast
  have s: "sublist (''export type '' @ name @ '' = string;'' @ [newline]) doc"
    if "name \<in> ?names" for name
  proof -
    from document_open[OF that, of get2 ec2_instances ec2_families rds_instances rds_families
        elasticache_nodes elasticache_families]
    obtain doc' where "generate_typescript_types get2 ec2_instances ec2_families rds_instances
      rds_families elasticache_nodes elasticache_families = Inr doc'"
      and "sublist (''export type '' @ name @ '' = string;'' @ [newline]) doc'" by blast
    with d show ?thesis by (simp only: sum.inject)
  qed
  have 1: "sublist (''export type EC2Hypervisor = string;'' @ [newline]) doc"
    using s[of "''EC2Hypervisor''"] by (simp only: append_Cons append_Nil insert_iff simp_thms)
  have 2: "sublist (''export type EC2ProcessorArchitecture = string;'' @ [newline]) doc"
    using s[of "''EC2ProcessorArchitecture''"]
    by (simp only: append_Cons append_Nil insert_iff simp_thms)
  have 3: "sublist (''export type EC2Processor = string;'' @ [newline]) doc"
    using s[of "''EC2Processor''"] by (simp only: append_Cons append_Nil insert_iff simp_thms)
  have 4: "sublist (''export type EC2OperatingSystem = string;'' @ [newline]) doc"
    using s[of "''EC2OperatingSystem''"] by (simp only: append_Cons append_Nil insert_iff simp_thms)
  have 5: "sublist (''export type EC2Accelerator = string;'' @ [newline]) doc"
    using s[of "''EC2Accelerator''"] by (simp only: append_Cons append_Nil insert_iff simp_thms)
  have h: "hypervisor example_instance = ''Nitro v2''" by (simp add: example_instance_def)
  have e: "enumerable_sets get2 ec2_instances = Inr ({}, {}, {}, {}, {})"
    "enumerable_sets no_attribute [(''m5.large'', example_instance)] = Inr ({}, {}, {}, {}, {})"
    by (rule enumerable_sets_empty)+
  from d 1 2 3 4 5 h e show ?thesis by blast
qed

lemma union_type_sorted:
  assumes "finite values" "values \<noteq> {}"
  shows "\<exists>xs. sorted xs \<and> distinct xs \<and> set xs = values \<and>
           generate_union_type name values =
             ''export type '' @ name @ '' ='' @ [newline] @
             join [newline] (map union_member xs) @ '';'' @ [newline]"
  using assms
  by (intro exI[of _ "sorted_list_of_set values"]) (simp add: generate_union_type_def)

lemma same_keys: "map_of x = map_of y \<Longrightarrow> set (map fst x) = set (map fst y)"
proof -
  assume a: "map_of x = map_of y"
  have "fst ` set x = dom (map_of x)" by (simp add: dom_map_of_conv_image_fst)
  also have "\<dots> = dom (map_of y)" by (simp only: a)
  also have "\<dots> = fst ` set y" by (simp add: dom_map_of_conv_image_fst)
  finally show ?thesis by simp
qed

text \<open>
  Claim C3. Two datasets that are equal as dictionaries, whatever the order in which
  their keys were inserted, give the same document, byte for byte; and a union type with
  values lists them in ascending order, each once.
\<close>

theorem C3_schema_deterministic:
  "(map_of e1 = map_of e2 \<and> map_of f1 = map_of f2 \<and> map_of r1 = map_of r2 \<and>
    map_of rf1 = map_of rf2 \<and> map_of n1 = map_of n2 \<and> map_of nf1 = map_of nf2 \<longrightarrow>
      generate_typescript_types get2 e1 f1 r1 rf1 n1 nf1 =
      generate_typescript_types get2 e2 f2 r2 rf2 n2 nf2) \<and>
   (finite values \<and> values \<noteq> {} \<longrightarrow>
      (\<exists>xs. sorted xs \<and> distinct xs \<and> set xs = values \<and>
         generate_union_type name values =
           ''export type '' @ name @ '' ='' @ [newline] @
           join [newline] (map union_member xs) @ '';'' @ [newline]))"
proof (intro conjI impI)
  assume a: "map_of e1 = map_of e2 \<and> map_of f1 = map_of f2 \<and> map_of r1 = map_of r2 \<and>
    map_of rf1 = map_of rf2 \<and> map_of n1 = map_of n2 \<and> map_of nf1 = map_of nf2"
  from a have "set (map fst e1) = set (map fst e2)" "set (map fst f1) = set (map fst f2)"
    "set (map fst r1) = set (map fst r2)" "set (map fst rf1) = set (map fst rf2)"
    "set (map fst n1) = set (map fst n2)" "set (map fst nf1) = set (map fst nf2)"
    using same_keys[of e1 e2] same_keys[of f1 f2] same_keys[of r1 r2] same_keys[of rf1 rf2]
      same_keys[of n1 n2] same_keys[of nf1 nf2] by blast+
  then show "generate_typescript_types get2 e1 f1 r1 rf1 n1 nf1 =
      generate_typescript_types get2 e2 f2 r2 rf2 n2 nf2"
    by (simp only: document_parts)
next
  assume "finite values \<and> values \<noteq> {}"
  then show "\<exists>xs. sorted xs \<and> distinct xs \<and> set xs = values \<and>
         generate_union_type name values =
           ''export type '' @ name @ '' ='' @ [newline] @
           join [newline] (map union_member xs) @ '';'' @ [newline]"
    using union_type_sorted by blast
qed

theorem C3_schema_deterministic_witness:
  "map_of [(''m5.large'', example_instance), (''c5.large'', example_instance)] =
     map_of [(''c5.large'', example_instance), (''m5.large'', example_instance)] \<and>
   map_of [(''M5'', ()), (''C5'', ())] = map_of [(''C5'', ()), (''M5'', ())] \<and>
   generate_typescript_types no_attribute
     [(''m5.large'', example_instance), (''c5.large'', example_instance)]
     [(''M5'', ()), (''C5'', ())] ([] :: (string \<times> unit) list) ([] :: (string \<times> unit) list)
     ([] :: (string \<times> unit) list) ([] :: (string \<times> unit) list) =
   generate_typescript_types no_attribute
     [(''c5.large'', example_instance), (''m5.large'', example_instance)]
     [(''C5'', ()), (''M5'', ())] ([] :: (string \<times> unit) list) ([] :: (string \<times> unit) list)
     ([] :: (string \<times> unit) list) ([] :: (string \<times> unit) list) \<and>
   finite {''xen'', ''nitro''} \<and> {''xen'', ''nitro''} \<noteq> {} \<and>
   (\<exists>xs. sorted xs \<and> distinct xs \<and> set xs = {''xen'', ''nitro''} \<and>
      generate_union_type ''EC2Hypervisor'' {''xen'', ''nitro''} =
        ''export type '' @ ''EC2Hypervisor'' @ '' ='' @ [newline] @
        join [newline] (map union_member xs) @ '';'' @ [newline])"
proof -
  let ?e1 = "[(''m5.large'', example_instance), (''c5.large'', example_instance)]"
  let ?e2 = "[(''c5.large'', example_instance), (''m5.large'', example_instance)]"
  let ?f1 = "[(''M5'', ()), (''C5'', ())]"
  let ?f2 = "[(''C5'', ()), (''M5'', ())]"
  let ?n = "[] :: (string \<times> unit) list"
  have m: "map_of ?e1 = map_of ?e2" "map_of ?f1 = map_of ?f2"
    by (auto simp: fun_eq_iff)
  have v: "finite {''xen'', ''nitro''}" "{''xen'', ''nitro''} \<noteq> {}" by simp_all
  from C3_schema_deterministic[of ?e1 ?e2 ?f1 ?f2 ?n ?n ?n ?n ?n ?n ?n ?n no_attribute
      "{''xen'', ''nitro''}" "''EC2Hypervisor''"] m v
  show ?thesis by blast
qed

subsection \<open>Family derivation and the record builders\<close>

lemma split_hd: "\<exists>rest. split c s = takeWhile (\<lambda>x. x \<noteq> c) s # rest"
  by (induction s) (auto split: list.splits)

lemma capitalize_first_result:
  "capitalize_first p = Inr f \<longleftrightarrow> p \<noteq> [] \<and> f = upper_char (hd p) # tl p"
  by (cases p) (auto simp: capitalize_first_def)

lemma capitalize_first_error:
  "capitalize_first p = Inl e \<longleftrightarrow> p = [] \<and> e = IndexError"
  by (cases p) (auto simp: capitalize_first_def)

lemma ec2_family:
  "extract_family_from_instance_type k = capitalize_first (first_segment k)"
  using split_hd[of "CHR ''.''" k]
  by (auto simp: extract_family_from_instance_type_def first_segment_def)

lemma rds_family:
  "starts_with ''db.'' k \<Longrightarrow> extract_rds_family k = capitalize_first (first_segment (drop 3 k))"
  using split_hd[of "CHR ''.''" "drop 3 k"]
  by (auto simp: extract_rds_family_def first_segment_def)

lemma elasticache_family:
  "starts_with ''cache.'' k \<Longrightarrow>
     extract_elasticache_family k = capitalize_first (first_segment (drop 6 k))"
  using split_hd[of "CHR ''.''" "drop 6 k"]
  by (auto simp: extract_elasticache_family_def first_segment_def)

lemma update_entries_ok:
  assumes "list_all P al" "P (k, v)"
  shows "list_all P (AList.update k v al)"
  using assms by (induction al) (auto)

lemma process_rds_rows_ok:
  assumes "process_rds_rows F rows acc = Inr insts" "list_all rds_entry_ok acc"
  shows "list_all rds_entry_ok insts"
  using assms
proof (induction rows arbitrary: acc)
  case Nil
  then show ?case by simp
next
  case (Cons raw rows)
  let ?k = "dict_get raw ''instance_class'' []"
  show ?case
  proof (cases "?k = [] \<or> \<not> starts_with ''db.'' ?k")
    case True
    with Cons show ?thesis by (auto simp: Let_def)
  next
    case False
    show ?thesis
    proof (cases "extract_rds_family ?k")
      case (Inl e)
      with False Cons.prems show ?thesis by (simp add: Let_def)
    next
      case (Inr fam)
      have "rds_entry_ok (?k, rds_details F raw ?k fam)"
        using False Inr by (simp add: rds_entry_ok_def rds_details_def)
      then have "list_all rds_entry_ok (AList.update ?k (rds_details F raw ?k fam) acc)"
        using Cons.prems(2) by (intro update_entries_ok)
      moreover have "process_rds_rows F rows (AList.update ?k (rds_details F raw ?k fam) acc) = Inr insts"
        using False Inr Cons.prems(1) by (simp add: Let_def)
      ultimately show ?thesis using Cons.IH by blast
    qed
  qed
qed

lemma process_instances_ok:
  assumes "process_instances T cat fs perf acc = Inr insts"
    "list_all (\<lambda>e. \<exists>f. extract_family_from_instance_type (fst e) = Inr f) acc"
  shows "list_all (\<lambda>e. \<exists>f. extract_family_from_instance_type (fst e) = Inr f) insts"
  using assms
proof (induction perf arbitrary: acc)
  case Nil
  then show ?case by simp
next
  case (Cons p perf)
  obtain k v where p: "p = (k, v)" by (cases p)
  show ?case
  proof (cases "extract_family_from_instance_type k")
    case (Inl e)
    with Cons.prems p show ?thesis by simp
  next
    case (Inr fam)
    let ?acc = "AList.update k (instance_details T cat k (find_family_summary fs fam) v) acc"
    have "list_all (\<lambda>e. \<exists>f. extract_family_from_instance_type (fst e) = Inr f) ?acc"
      using Cons.prems(2) Inr by (intro update_entries_ok) simp_all
    moreover have "process_instances T cat fs perf ?acc = Inr insts"
      using Cons.prems(1) Inr p by simp
    ultimately show ?thesis using Cons.IH by blast
  qed
qed

lemma in_notin_neq: "k \<in> A \<Longrightarrow> x \<notin> A \<Longrightarrow> k \<noteq> x"
  by blast

lemma elasticache_rows_inv:
  assumes "process_elasticache_rows F rows acc = Inr nodes" "distinct (map fst acc)"
  shows "distinct (map fst nodes) \<and>
         fst ` set nodes = fst ` set acc \<union>
           {k. starts_with ''cache.'' k \<and> (\<exists>raw \<in> set rows. dict_get raw ''node_type'' [] = k)} \<and>
         (\<forall>e \<in> set nodes. e \<in> set acc \<or> (fst e \<notin> fst ` set acc \<and> built_from F rows e))"
  using assms
proof (induction rows arbitrary: acc)
  case Nil
  then show ?case by auto
next
  case (Cons raw rows)
  let ?k = "dict_get raw ''node_type'' []"
  let ?new = "\<lambda>rs. {k. starts_with ''cache.'' k \<and> (\<exists>raw \<in> set rs. dict_get raw ''node_type'' [] = k)}"
  have fr: "first_row k (raw # rows) = first_row k rows" if "?k \<noteq> k" for k
    using that by (simp add: first_row_def)
  show ?case
  proof (cases "?k = [] \<or> \<not> starts_with ''cache.'' ?k")
    case True
    then have p: "process_elasticache_rows F rows acc = Inr nodes"
      using Cons.prems(1) by (auto simp: Let_def)
    note ih = Cons.IH[OF p Cons.prems(2)]
    have nk: "\<not> starts_with ''cache.'' ?k" using True by (auto simp: starts_with_def)
    have "?new (raw # rows) = ?new rows" using nk by auto
    moreover have "built_from F (raw # rows) e" if "built_from F rows e" for e
    proof -
      from that have "starts_with ''cache.'' (fst e)" by (simp add: built_from_def)
      with nk have "?k \<noteq> fst e" by auto
      from fr[OF this] that show ?thesis by (simp add: built_from_def)
    qed
    ultimately show ?thesis using ih by auto
  next
    case False
    then have pk: "starts_with ''cache.'' ?k" by simp
    show ?thesis
    proof (cases "?k \<in> set (map fst acc)")
      case True
      then have p: "process_elasticache_rows F rows acc = Inr nodes"
        using Cons.prems(1) False by (simp add: Let_def)
      note ih = Cons.IH[OF p Cons.prems(2)]
      have "?k \<in> fst ` set acc" using True by simp
      then have "fst ` set acc \<union> ?new (raw # rows) = fst ` set acc \<union> ?new rows"
        by auto
      moreover have "built_from F (raw # rows) e" if "built_from F rows e" "fst e \<notin> fst ` set acc" for e
      proof -
        from True have "?k \<in> fst ` set acc" by simp
        then have "?k \<noteq> fst e" using that(2) by (rule in_notin_neq)
        from fr[OF this] that(1) show ?thesis by (simp add: built_from_def)
      qed
      ultimately show ?thesis using ih by auto
    next
      case nd: False
      show ?thesis
      proof (cases "extract_elasticache_family ?k")
        case (Inl e)
        with False nd Cons.prems(1) show ?thesis by (simp add: Let_def)
      next
        case (Inr fam)
        let ?d = "elasticache_details F raw ?k fam"
        let ?acc = "acc @ [(?k, ?d)]"
        have p: "process_elasticache_rows F rows ?acc = Inr nodes"
          using Cons.prems(1) False nd Inr by (simp add: Let_def)
        have d: "distinct (map fst ?acc)" using Cons.prems(2) nd by simp
        note ih = Cons.IH[OF p d]
        have keys: "fst ` set ?acc \<union> ?new rows = fst ` set acc \<union> ?new (raw # rows)"
          using pk by auto
        have bf: "built_from F (raw # rows) (?k, ?d)"
          using pk Inr by (simp add: built_from_def first_row_def)
        have "e \<in> set acc \<or> (fst e \<notin> fst ` set acc \<and> built_from F (raw # rows) e)"
          if e: "e \<in> set nodes" for e
        proof -
          from ih e consider "e \<in> set acc" | "e = (?k, ?d)"
            | "fst e \<notin> fst ` set ?acc" "built_from F rows e" by auto
          then show ?thesis
          proof cases
            case 1
            then show ?thesis by simp
          next
            case 2
            with bf nd show ?thesis by simp
          next
            case 3
            have "?k \<in> fst ` set ?acc" by simp
            then have "?k \<noteq> fst e" using 3(1) by (rule in_notin_neq)
            moreover have "fst e \<notin> fst ` set acc" using 3(1) by simp
            ultimately show ?thesis using fr[of "fst e"] 3(2) by (simp add: built_from_def)
          qed
        qed
        with ih keys show ?thesis by auto
      qed
    qed
  qed
qed

lemma capitalized:
  assumes "capitalize_first seg = Inr f"
  shows "f \<noteq> [] \<and> f = upper_char (hd seg) # tl seg"
  using assms by (simp add: capitalize_first_result)

lemma ec2_keys_derive:
  assumes "process_instances T cat fs perf [] = Inr insts" "(k, d) \<in> set insts"
  shows "\<exists>f. extract_family_from_instance_type k = Inr f \<and> f \<noteq> [] \<and>
           f = upper_char (hd (first_segment k)) # tl (first_segment k)"
proof -
  from process_instances_ok[OF assms(1)] assms(2)
  obtain f where f: "extract_family_from_instance_type k = Inr f"
    by (auto simp: list_all_iff)
  then have "capitalize_first (first_segment k) = Inr f" by (simp add: ec2_family)
  from capitalized[OF this] f show ?thesis by simp
qed

lemma rds_keys_derive:
  assumes "process_rds_data F rows = Inr insts" "(k, d) \<in> set insts"
  shows "starts_with ''db.'' k \<and> extract_rds_family k = Inr (rds_family d) \<and>
         rds_family d \<noteq> [] \<and>
         rds_family d = upper_char (hd (first_segment (drop 3 k))) # tl (first_segment (drop 3 k))"
proof -
  from process_rds_rows_ok[of F rows "[]" insts] assms
  have ok: "rds_entry_ok (k, d)" by (auto simp: process_rds_data_def list_all_iff)
  then have p: "starts_with ''db.'' k" and e: "extract_rds_family k = Inr (rds_family d)"
    by (simp_all add: rds_entry_ok_def)
  from e have "capitalize_first (first_segment (drop 3 k)) = Inr (rds_family d)"
    by (simp add: rds_family[OF p])
  from capitalized[OF this] p e show ?thesis by simp
qed

lemma elasticache_keys_derive:
  assumes "process_elasticache_data F rows = Inr nodes" "(k, d) \<in> set nodes"
  shows "starts_with ''cache.'' k \<and> extract_elasticache_family k = Inr (cache_family d) \<and>
         cache_family d \<noteq> [] \<and>
         cache_family d =
           upper_char (hd (first_segment (drop 6 k))) # tl (first_segment (drop 6 k))"
proof -
  from elasticache_rows_inv[of F rows "[]" nodes] assms
  have "built_from F rows (k, d)" by (auto simp: process_elasticache_data_def)
  then obtain raw fam where p: "starts_with ''cache.'' k"
    and e: "extract_elasticache_family k = Inr fam" and d: "d = elasticache_details F raw k fam"
    by (auto simp: built_from_def)
  have f: "cache_family d = fam" by (simp add: d elasticache_details_def)
  from e have "capitalize_first (first_segment (drop 6 k)) = Inr fam"
    by (simp add: elasticache_family[OF p])
  from capitalized[OF this] p e f show ?thesis by simp
qed

text \<open>
  Claim C4. For every key of the dictionary a record builder returns (the EC2 loop, the
  RDS builder, the Elasticache builder), the family derivation returns a string, which is
  not empty and is the segment of the key before its first dot, taken after the prefix
  \<open>db.\<close> or \<open>cache.\<close> for the two other domains, with its first character uppercased; the
  RDS and Elasticache records hold it as their family. The derivation is a function of
  the key alone, so two applications give the same string.
\<close>

theorem C4_family_derivation:
  "(process_instances T cat fs perf [] = Inr insts \<and> (k1, d1) \<in> set insts \<longrightarrow>
      (\<exists>f. extract_family_from_instance_type k1 = Inr f \<and> f \<noteq> [] \<and>
         f = upper_char (hd (first_segment k1)) # tl (first_segment k1))) \<and>
   (process_rds_data F rows = Inr rds \<and> (k2, d2) \<in> set rds \<longrightarrow>
      starts_with ''db.'' k2 \<and> extract_rds_family k2 = Inr (rds_family d2) \<and>
      rds_family d2 \<noteq> [] \<and>
      rds_family d2 =
        upper_char (hd (first_segment (drop 3 k2))) # tl (first_segment (drop 3 k2))) \<and>
   (process_elasticache_data F raw_nodes = Inr nodes \<and> (k3, d3) \<in> set nodes \<longrightarrow>
      starts_with ''cache.'' k3 \<and> extract_elasticache_family k3 = Inr (cache_family d3) \<and>
      cache_family d3 \<noteq> [] \<and>
      cache_family d3 =
        upper_char (hd (first_segment (drop 6 k3))) # tl (first_segment (drop 6 k3))) \<and>
   (extract_family_from_instance_type k = Inr f1 \<and>
    extract_family_from_instance_type k = Inr f2 \<longrightarrow> f1 = f2) \<and>
   (extract_rds_family k = Inr f1 \<and> extract_rds_family k = Inr f2 \<longrightarrow> f1 = f2)"
  using ec2_keys_derive[of T cat fs perf insts k1 d1] rds_keys_derive[of F rows rds k2 d2]
    elasticache_keys_derive[of F raw_nodes nodes k3 d3]
  by auto

theorem C4_family_derivation_witness:
  "process_instances
     \<lparr>network_table = Map.empty, network_default = (), ebs_table = Map.empty, ebs_default = (),
      instance_store_table = Map.empty, security_table = Map.empty, security_default = ()\<rparr>
     ''compute_optimized'' []
     [(''c7i-flex.large'',
       \<lparr>perf_memoryGiB = (4 :: rat), perf_processor = ''Intel Xeon Scalable'', perf_vCPUs = 2,
        perf_cpuCores = 1, perf_threadsPerCore = 2, perf_accelerators = None,
        perf_acceleratorMemory = None\<rparr>)] [] \<noteq> Inl IndexError \<and>
   extract_family_from_instance_type ''c7i-flex.large'' = Inr ''C7i-flex'' \<and>
   process_rds_data decimal_floats
     [[(''instance_class'', ''db.m5.large''), (''vcpu'', ''2''), (''memory_gib'', ''8.0'')]] =
     Inr [(''db.m5.large'',
           \<lparr>rds_instanceClass = ''db.m5.large'', rds_family = ''M5'',
            rds_category = ''general_purpose'', rds_vCPUs = 2, rds_memoryGiB = 8,
            rds_networkBandwidthGbps = [], rds_ebsBandwidthMbps = []\<rparr>)] \<and>
   extract_rds_family ''db.m5.large'' = Inr ''M5'' \<and>
   process_elasticache_data decimal_floats
     [[(''node_type'', ''cache.t3.micro''), (''vcpus'', ''2'')]] =
     Inr [(''cache.t3.micro'',
           \<lparr>cache_nodeType = ''cache.t3.micro'', cache_family = ''T3'',
            cache_category = ''burstable_performance'', cache_vCPUs = Some 2,
            cache_memoryGiB = None, cache_networkPerformance = [],
            cache_baselineBandwidthGbps = None, cache_burstBandwidthGbps = None\<rparr>)] \<and>
   extract_elasticache_family ''cache.t3.micro'' = Inr ''T3''"
proof -
  let ?T = "\<lparr>network_table = Map.empty, network_default = (), ebs_table = Map.empty,
      ebs_default = (), instance_store_table = Map.empty, security_table = Map.empty,
      security_default = ()\<rparr> :: unit spec_tables"
  let ?P = "\<lparr>perf_memoryGiB = (4 :: rat), perf_processor = ''Intel Xeon Scalable'',
      perf_vCPUs = 2, perf_cpuCores = 1, perf_threadsPerCore = 2, perf_accelerators = None,
      perf_acceleratorMemory = None\<rparr>"
  let ?D = "instance_details ?T ''compute_optimized'' ''c7i-flex.large''
      (find_family_summary [] ''C7i-flex'') ?P"
  let ?R = "\<lparr>rds_instanceClass = ''db.m5.large'', rds_family = ''M5'',
      rds_category = ''general_purpose'', rds_vCPUs = 2, rds_memoryGiB = (8 :: rat),
      rds_networkBandwidthGbps = [], rds_ebsBandwidthMbps = []\<rparr>"
  let ?N = "\<lparr>cache_nodeType = ''cache.t3.micro'', cache_family = ''T3'',
      cache_category = ''burstable_performance'', cache_vCPUs = Some 2,
      cache_memoryGiB = (None :: rat option), cache_networkPerformance = [],
      cache_baselineBandwidthGbps = None, cache_burstBandwidthGbps = None\<rparr>"
  have x: "extract_family_from_instance_type ''c7i-flex.large'' = Inr ''C7i-flex''"
    by code_simp
  have e: "process_instances ?T ''compute_optimized'' [] [(''c7i-flex.large'', ?P)] [] =
      Inr [(''c7i-flex.large'', ?D)]"
    by (simp add: x)
  have r: "process_rds_data decimal_floats
      [[(''instance_class'', ''db.m5.large''), (''vcpu'', ''2''), (''memory_gib'', ''8.0'')]] =
      Inr [(''db.m5.large'', ?R)]"
    by code_simp
  have n: "process_elasticache_data decimal_floats
      [[(''node_type'', ''cache.t3.micro''), (''vcpus'', ''2'')]] =
      Inr [(''cache.t3.micro'', ?N)]"
    by code_simp
  from C4_family_derivation[of ?T "''compute_optimized''" "[]" "[(''c7i-flex.large'', ?P)]"
      "[(''c7i-flex.large'', ?D)]" "''c7i-flex.large''" ?D decimal_floats
      "[[(''instance_class'', ''db.m5.large''), (''vcpu'', ''2''), (''memory_gib'', ''8.0'')]]"
      "[(''db.m5.large'', ?R)]" "''db.m5.large''" ?R
      "[[(''node_type'', ''cache.t3.micro''), (''vcpus'', ''2'')]]"
      "[(''cache.t3.micro'', ?N)]" "''cache.t3.micro''" ?N] e r n
  have "extract_rds_family ''db.m5.large'' = Inr (rds_family ?R)"
    "extract_elasticache_family ''cache.t3.micro'' = Inr (cache_family ?N)"
    by simp_all
  with e x r n show ?thesis by simp
qed

text \<open>
  When the Elasticache builder returns, its dictionary has one record for every node
  type with the prefix that occurs in a row, and no other; each record is built from the
  first row of its node type.
\<close>

lemma elasticache_records_when_returned:
  assumes "process_elasticache_data F raw_nodes = Inr nodes"
  shows "distinct (map fst nodes)"
    and "fst ` set nodes =
           {k. starts_with ''cache.'' k \<and> (\<exists>raw \<in> set raw_nodes. dict_get raw ''node_type'' [] = k)}"
    and "\<forall>e \<in> set nodes. built_from F raw_nodes e"
  using elasticache_rows_inv[of F raw_nodes "[]" nodes] assms
  by (auto simp: process_elasticache_data_def)

text \<open>
  Claim C10 on the code. A node type that is just the prefix, \<open>cache.\<close>, passes the cell
  cleaning and the row filter of \<open>parse_elasticache_table\<close>, and the builder raises
  \<^verbatim>\<open>IndexError\<close> on it in the family derivation: it returns no record at all, neither
  for this key nor for the well-formed \<open>cache.t3.micro\<close> of the row before it.
\<close>

theorem C10_prefix_only_key_raises:
  "parse_elasticache_table
     \<lparr>thead = Some [''Node type'', ''vCPUs''],
      trs = [[''cache.t3.micro'', ''2''], [''cache.'', ''2'']]\<rparr> =
     [[(''node_type'', ''cache.t3.micro''), (''vcpus'', ''2'')],
      [(''node_type'', ''cache.''), (''vcpus'', ''2'')]] \<and>
   starts_with ''cache.'' ''cache.'' \<and>
   extract_elasticache_family ''cache.'' = Inl IndexError \<and>
   process_elasticache_data decimal_floats
     [[(''node_type'', ''cache.t3.micro''), (''vcpus'', ''2'')],
      [(''node_type'', ''cache.''), (''vcpus'', ''2'')]] = Inl IndexError"
  by code_simp

end
